theory Spec2Isabelle
  imports
    Main
    "HOL-Library.Word"
    "HOL-Library.AList"
    "HOL-Library.Char_ord"
    "HOL-Library.List_Lexorder"
    "HOL-Library.Product_Lexorder"
    "HOL-Library.Multiset"
begin

unbundle bit_operations_syntax

section \<open>tap-ga4: the report extraction engine (\<open>tap_ga4/sync.py\<close>)\<close>

text \<open>
  Conventions of the embedding.
  \<^item> A Python \<open>str\<close> is a \<open>string\<close>: a list of characters, each a code point below 256.
    Python compares strings by code point, lexicographically, and tuples component by
    component; these are the orders of \<open>Char_ord\<close>, \<open>List_Lexorder\<close> and
    \<open>Product_Lexorder\<close>.
  \<^item> A Python \<open>dict\<close> with string keys is an association list in insertion order;
    \<open>d[k] = v\<close> is \<open>AList.update k v d\<close> (overwrite in place, or append).
  \<^item> An exception is a value of \<open>error\<close>; a function that can raise returns
    \<open>error + 'a\<close>.
\<close>

subsection \<open>Errors\<close>

datatype api_error = ServerError | TooManyRequests | ResourceExhausted | OtherApiError

datatype error =
    KeyError string
  | ValueError
  | IndexError
  | OverflowError
  | ApiError api_error

subsection \<open>Dictionaries\<close>

type_synonym py_dict = "(string \<times> string) list"

definition dict_get :: "py_dict \<Rightarrow> string \<Rightarrow> error + string" where
  "dict_get d k = (case map_of d k of None \<Rightarrow> Inl (KeyError k) | Some v \<Rightarrow> Inr v)"

text \<open>\<open>d.update(pairs)\<close>: the pairs are stored one after the other, left to right.\<close>

definition dict_update :: "py_dict \<Rightarrow> (string \<times> string) list \<Rightarrow> py_dict" where
  "dict_update d pairs = fold (\<lambda>(k, v) acc. AList.update k v acc) pairs d"

subsection \<open>\<open>json.dumps\<close> and \<open>str.encode('utf-8')\<close>\<close>

text \<open>The digit of a number below 16, as \<open>'%x'\<close> writes it.\<close>

definition hex_digit :: "nat \<Rightarrow> char" where
  "hex_digit n = ''0123456789abcdef'' ! n"

text \<open>
  \<open>json.dumps\<close> runs with \<open>ensure_ascii=True\<close>: the quote and the backslash are escaped,
  the control characters with a short form take it, every other character outside
  \<open>' '..'~'\<close> is written \<open>\u00xx\<close>.
\<close>

definition json_escape_char :: "char \<Rightarrow> string" where
  "json_escape_char c =
     (if c = CHR 0x22 then [CHR 0x5C, CHR 0x22]
      else if c = CHR 0x5C then [CHR 0x5C, CHR 0x5C]
      else if c = CHR 0x0A then [CHR 0x5C, CHR ''n'']
      else if c = CHR 0x0D then [CHR 0x5C, CHR ''r'']
      else if c = CHR 0x09 then [CHR 0x5C, CHR ''t'']
      else if c = CHR 0x08 then [CHR 0x5C, CHR ''b'']
      else if c = CHR 0x0C then [CHR 0x5C, CHR ''f'']
      else if 32 \<le> (of_char c :: nat) \<and> (of_char c :: nat) \<le> 126 then [c]
      else [CHR 0x5C, CHR ''u'', CHR ''0'', CHR ''0'',
            hex_digit (of_char c div 16), hex_digit (of_char c mod 16)])"

definition json_str :: "string \<Rightarrow> string" where
  "json_str s = CHR 0x22 # concat (map json_escape_char s) @ [CHR 0x22]"

text \<open>A list is \<open>[\<close>, the items joined by \<open>", "\<close>, \<open>]\<close>; a tuple is written as a list.\<close>

fun json_join :: "string list \<Rightarrow> string" where
  "json_join [] = []"
| "json_join [x] = x"
| "json_join (x # y # ys) = x @ '', '' @ json_join (y # ys)"

definition json_list :: "string list \<Rightarrow> string" where
  "json_list items = ''['' @ json_join items @ '']''"

definition json_pair :: "string \<times> string \<Rightarrow> string" where
  "json_pair p = json_list [json_str (fst p), json_str (snd p)]"

text \<open>The JSON text of \<open>[property_id, pairs, start_date, end_date]\<close>.\<close>

definition json_dumps :: "string \<Rightarrow> (string \<times> string) list \<Rightarrow> string \<Rightarrow> string \<Rightarrow> string" where
  "json_dumps property_id pairs start_date end_date =
     json_list [json_str property_id, json_list (map json_pair pairs),
                json_str start_date, json_str end_date]"

definition encode_utf8_char :: "char \<Rightarrow> 8 word list" where
  "encode_utf8_char c =
     (let n = (of_char c :: nat)
      in if n < 128 then [of_nat n]
         else [of_nat (192 + n div 64), of_nat (128 + n mod 64)])"

definition encode_utf8 :: "string \<Rightarrow> 8 word list" where
  "encode_utf8 s = concat (map encode_utf8_char s)"

subsection \<open>The primary-key hash\<close>

text \<open>
  \<open>hashlib.sha256\<close> is SHA-256 as FIPS 180-4 defines it: the message is padded to a
  multiple of 64 bytes, cut into blocks of sixteen big-endian 32-bit words, and each
  block is folded into a state of eight 32-bit words by 64 rounds.
\<close>

type_synonym sha_state =
  "32 word \<times> 32 word \<times> 32 word \<times> 32 word \<times> 32 word \<times> 32 word \<times> 32 word \<times> 32 word"

definition sha256_K :: "32 word list" where
  "sha256_K =
    [1116352408, 1899447441, 3049323471, 3921009573, 961987163, 1508970993, 2453635748, 2870763221,
     3624381080, 310598401, 607225278, 1426881987, 1925078388, 2162078206, 2614888103, 3248222580,
     3835390401, 4022224774, 264347078, 604807628, 770255983, 1249150122, 1555081692, 1996064986,
     2554220882, 2821834349, 2952996808, 3210313671, 3336571891, 3584528711, 113926993, 338241895,
     666307205, 773529912, 1294757372, 1396182291, 1695183700, 1986661051, 2177026350, 2456956037,
     2730485921, 2820302411, 3259730800, 3345764771, 3516065817, 3600352804, 4094571909, 275423344,
     430227734, 506948616, 659060556, 883997877, 958139571, 1322822218, 1537002063, 1747873779,
     1955562222, 2024104815, 2227730452, 2361852424, 2428436474, 2756734187, 3204031479, 3329325298]"

definition sha256_H0 :: sha_state where
  "sha256_H0 =
    (1779033703, 3144134277, 1013904242, 2773480762, 1359893119, 2600822924, 528734635, 1541459225)"

definition Ch :: "32 word \<Rightarrow> 32 word \<Rightarrow> 32 word \<Rightarrow> 32 word" where
  "Ch x y z = (x AND y) XOR (NOT x AND z)"

definition Maj :: "32 word \<Rightarrow> 32 word \<Rightarrow> 32 word \<Rightarrow> 32 word" where
  "Maj x y z = (x AND y) XOR (x AND z) XOR (y AND z)"

definition Sigma0 :: "32 word \<Rightarrow> 32 word" where
  "Sigma0 x = word_rotr 2 x XOR word_rotr 13 x XOR word_rotr 22 x"

definition Sigma1 :: "32 word \<Rightarrow> 32 word" where
  "Sigma1 x = word_rotr 6 x XOR word_rotr 11 x XOR word_rotr 25 x"

definition sigma0 :: "32 word \<Rightarrow> 32 word" where
  "sigma0 x = word_rotr 7 x XOR word_rotr 18 x XOR drop_bit 3 x"

definition sigma1 :: "32 word \<Rightarrow> 32 word" where
  "sigma1 x = word_rotr 17 x XOR word_rotr 19 x XOR drop_bit 10 x"

fun sha256_round :: "sha_state \<Rightarrow> 32 word \<times> 32 word \<Rightarrow> sha_state" where
  "sha256_round (a, b, c, d, e, f, g, h) (k, w) =
     (let t1 = h + Sigma1 e + Ch e f g + k + w;
          t2 = Sigma0 a + Maj a b c
      in (t1 + t2, a, b, c, d + t1, e, f, g))"

fun sha256_schedule :: "nat \<Rightarrow> 32 word list \<Rightarrow> 32 word list" where
  "sha256_schedule 0 ws = ws"
| "sha256_schedule (Suc n) ws =
     (let t = length ws
      in sha256_schedule n
           (ws @ [sigma1 (ws ! (t - 2)) + ws ! (t - 7) + sigma0 (ws ! (t - 15)) + ws ! (t - 16)]))"

fun sha256_add :: "sha_state \<Rightarrow> sha_state \<Rightarrow> sha_state" where
  "sha256_add (a, b, c, d, e, f, g, h) (a', b', c', d', e', f', g', h') =
     (a + a', b + b', c + c', d + d', e + e', f + f', g + g', h + h')"

definition sha256_block :: "sha_state \<Rightarrow> 32 word list \<Rightarrow> sha_state" where
  "sha256_block s m = sha256_add s (foldl sha256_round s (zip sha256_K (sha256_schedule 48 m)))"

fun sha256_blocks :: "sha_state \<Rightarrow> 32 word list \<Rightarrow> sha_state" where
  "sha256_blocks s ws =
     (if length ws < 16 then s
      else sha256_blocks (sha256_block s (take 16 ws)) (drop 16 ws))"

definition be64 :: "64 word \<Rightarrow> 8 word list" where
  "be64 n = map (\<lambda>i. ucast (drop_bit (8 * i) n)) (rev [0..<8])"

definition sha256_pad :: "8 word list \<Rightarrow> 8 word list" where
  "sha256_pad m =
     m @ [0x80] @ replicate ((119 - length m mod 64) mod 64) 0 @ be64 (of_nat (8 * length m))"

fun be32_words :: "8 word list \<Rightarrow> 32 word list" where
  "be32_words (a # b # c # d # rest) =
     (push_bit 24 (ucast a) OR push_bit 16 (ucast b) OR push_bit 8 (ucast c) OR ucast d)
       # be32_words rest"
| "be32_words _ = []"

definition sha256 :: "8 word list \<Rightarrow> sha_state" where
  "sha256 m = sha256_blocks sha256_H0 (be32_words (sha256_pad m))"

text \<open>\<open>hexdigest\<close>: the eight words, each as eight lower-case hexadecimal digits.\<close>

definition hex32 :: "32 word \<Rightarrow> string" where
  "hex32 w = map (\<lambda>i. hex_digit (unat (drop_bit (4 * i) w AND 15))) (rev [0..<8])"

fun hexdigest :: "sha_state \<Rightarrow> string" where
  "hexdigest (a, b, c, d, e, f, g, h) =
     hex32 a @ hex32 b @ hex32 c @ hex32 d @ hex32 e @ hex32 f @ hex32 g @ hex32 h"

definition hash_source_bytes :: "string \<Rightarrow> (string \<times> string) list \<Rightarrow> string \<Rightarrow> string \<Rightarrow> 8 word list" where
  "hash_source_bytes property_id dimension_pairs start_date end_date =
     encode_utf8 (json_dumps property_id (sort dimension_pairs) start_date end_date)"

definition generate_sdc_record_hash :: "py_dict \<Rightarrow> (string \<times> string) list \<Rightarrow> error + string" where
  "generate_sdc_record_hash record dimension_pairs =
     (case dict_get record ''property_id'' of
        Inl e \<Rightarrow> Inl e
      | Inr property_id \<Rightarrow>
         (case dict_get record ''start_date'' of
            Inl e \<Rightarrow> Inl e
          | Inr start_date \<Rightarrow>
             (case dict_get record ''end_date'' of
                Inl e \<Rightarrow> Inl e
              | Inr end_date \<Rightarrow>
                 Inr (hexdigest (sha256
                   (hash_source_bytes property_id dimension_pairs start_date end_date))))))"

subsection \<open>\<open>row_to_record\<close>\<close>

record report =
  property_id :: string
  name :: string
  report_id :: string
  metrics :: "string list"
  dimensions :: "string list"

record row =
  dimension_values :: "string list"
  metric_values :: "string list"

text \<open>\<open>list.index(x)\<close>: the first position of \<open>x\<close>, ValueError when there is none.\<close>

fun list_index :: "string list \<Rightarrow> string \<Rightarrow> error + nat" where
  "list_index [] x = Inl ValueError"
| "list_index (y # ys) x =
     (if y = x then Inr 0
      else (case list_index ys x of Inl e \<Rightarrow> Inl e | Inr i \<Rightarrow> Inr (Suc i)))"

text \<open>\<open>xs[i]\<close> for \<open>i \<ge> 0\<close>: IndexError out of range.\<close>

definition list_get :: "string list \<Rightarrow> nat \<Rightarrow> error + string" where
  "list_get xs i = (if i < length xs then Inr (xs ! i) else Inl IndexError)"

definition row_to_record ::
  "report \<Rightarrow> row \<Rightarrow> string list \<Rightarrow> string list \<Rightarrow> error + py_dict" where
  "row_to_record rep r dimension_headers metric_headers =
     (let dimension_pairs = zip dimension_headers (dimension_values r);
          record1 = dict_update [] dimension_pairs;
          record2 = dict_update record1 (zip metric_headers (metric_values r))
      in case list_index dimension_headers ''date'' of
           Inl e \<Rightarrow> Inl e
         | Inr i \<Rightarrow>
            (case list_get (dimension_values r) i of
               Inl e \<Rightarrow> Inl e
             | Inr report_date \<Rightarrow>
                (let record3 = AList.update ''start_date'' report_date record2;
                     record4 = AList.update ''end_date'' report_date record3;
                     record5 = AList.update ''property_id'' (property_id rep) record4
                 in case generate_sdc_record_hash record5 dimension_pairs of
                      Inl e \<Rightarrow> Inl e
                    | Inr h \<Rightarrow> Inr (AList.update ''_sdc_record_hash'' h record5))))"


subsection \<open>\<open>parse_datetime\<close> and \<open>transform_datetimes\<close>\<close>

text \<open>
  \<open>datetime.strptime\<close> turns the format into a regular expression, one group per
  directive, matches it at the start of the value and fails when characters remain:
  \<open>%Y\<close> is four digits, \<open>%m\<close> is \<open>1[0-2]|0[1-9]|[1-9]\<close>,
  \<open>%d\<close> is \<open>3[0-1]|[1-2]\d|0[1-9]|[1-9]| [1-9]\<close>, \<open>%H\<close> is \<open>2[0-3]|[0-1]\d|\d\<close> and
  \<open>%M\<close> is \<open>[0-5]\d|\d\<close>. A group offers its alternatives in this order and the
  matcher backtracks into an earlier group when a later one fails; \<open>match_directive\<close>
  lists the alternatives of one group, \<open>match_format\<close> those of a whole format, in the
  matcher's order, so that the match found is the head of the list.
\<close>

datatype directive = Year | Month | Day | Hour | Minute

definition is_digit :: "char \<Rightarrow> bool" where
  "is_digit c \<longleftrightarrow> CHR ''0'' \<le> c \<and> c \<le> CHR ''9''"

definition digit_val :: "char \<Rightarrow> nat" where
  "digit_val c = of_char c - 48"

definition two_digits :: "nat \<Rightarrow> nat \<Rightarrow> string \<Rightarrow> (nat \<times> string) list" where
  "two_digits lo hi s =
     (case s of
        a # b # rest \<Rightarrow>
          (if is_digit a \<and> is_digit b \<and> lo \<le> 10 * digit_val a + digit_val b
               \<and> 10 * digit_val a + digit_val b \<le> hi
           then [(10 * digit_val a + digit_val b, rest)] else [])
      | _ \<Rightarrow> [])"

definition one_digit :: "nat \<Rightarrow> string \<Rightarrow> (nat \<times> string) list" where
  "one_digit lo s =
     (case s of
        a # rest \<Rightarrow> (if is_digit a \<and> lo \<le> digit_val a then [(digit_val a, rest)] else [])
      | _ \<Rightarrow> [])"

definition four_digits :: "string \<Rightarrow> (nat \<times> string) list" where
  "four_digits s =
     (case s of
        a # b # c # d # rest \<Rightarrow>
          (if is_digit a \<and> is_digit b \<and> is_digit c \<and> is_digit d
           then [(1000 * digit_val a + 100 * digit_val b + 10 * digit_val c + digit_val d, rest)]
           else [])
      | _ \<Rightarrow> [])"

definition space_digit :: "string \<Rightarrow> (nat \<times> string) list" where
  "space_digit s = (case s of a # rest \<Rightarrow> (if a = CHR '' '' then one_digit 1 rest else []) | _ \<Rightarrow> [])"

fun match_directive :: "directive \<Rightarrow> string \<Rightarrow> (nat \<times> string) list" where
  "match_directive Year s = four_digits s"
| "match_directive Month s = two_digits 1 12 s @ one_digit 1 s"
| "match_directive Day s = two_digits 1 31 s @ one_digit 1 s @ space_digit s"
| "match_directive Hour s = two_digits 0 23 s @ one_digit 0 s"
| "match_directive Minute s = two_digits 0 59 s @ one_digit 0 s"

fun match_format :: "directive list \<Rightarrow> string \<Rightarrow> (nat list \<times> string) list" where
  "match_format [] s = [([], s)]"
| "match_format (d # ds) s =
     concat (map (\<lambda>(v, rest). map (\<lambda>(vs, rest'). (v # vs, rest')) (match_format ds rest))
                 (match_directive d s))"

definition is_leap :: "nat \<Rightarrow> bool" where
  "is_leap y \<longleftrightarrow> y mod 4 = 0 \<and> (y mod 100 \<noteq> 0 \<or> y mod 400 = 0)"

definition days_in_month :: "nat \<Rightarrow> nat \<Rightarrow> nat" where
  "days_in_month y m =
     (if m = 2 then (if is_leap y then 29 else 28)
      else if m = 4 \<or> m = 6 \<or> m = 9 \<or> m = 11 then 30 else 31)"

text \<open>The parsed fields: year, month, day, hour, minute (the formats have no seconds).\<close>

record parsed_datetime =
  year :: nat
  month :: nat
  day :: nat
  hour :: nat
  minute :: nat

text \<open>
  ValueError when the expression does not match, when data remains after the match, and
  when the fields are no date (year 0, or a day the month does not have).
\<close>

definition strptime :: "string \<Rightarrow> directive list \<Rightarrow> error + parsed_datetime" where
  "strptime value fmt =
     (case match_format fmt value of
        [] \<Rightarrow> Inl ValueError
      | (vs, rest) # _ \<Rightarrow>
          (if rest \<noteq> [] then Inl ValueError
           else (let dt = \<lparr>year = vs ! 0, month = vs ! 1, day = vs ! 2,
                           hour = (if 3 < length vs then vs ! 3 else 0),
                           minute = (if 4 < length vs then vs ! 4 else 0)\<rparr>
                 in if year dt < 1 \<or> days_in_month (year dt) (month dt) < day dt
                    then Inl ValueError else Inr dt)))"

text \<open>A number in \<open>w\<close> decimal digits, with leading zeros.\<close>

fun pad :: "nat \<Rightarrow> nat \<Rightarrow> string" where
  "pad 0 n = []"
| "pad (Suc w) n = pad w (n div 10) @ [''0123456789'' ! (n mod 10)]"

text \<open>\<open>singer.utils.DATETIME_FMT\<close> is \<open>%04Y-%m-%dT%H:%M:%S.%fZ\<close>.\<close>

definition strftime :: "parsed_datetime \<Rightarrow> string" where
  "strftime dt =
     pad 4 (year dt) @ ''-'' @ pad 2 (month dt) @ ''-'' @ pad 2 (day dt) @ ''T''
       @ pad 2 (hour dt) @ '':'' @ pad 2 (minute dt) @ '':00.000000Z''"

definition DATETIME_FORMATS :: "string \<Rightarrow> directive list option" where
  "DATETIME_FORMATS field_name =
     (if field_name = ''dateHour'' then Some [Year, Month, Day, Hour]
      else if field_name = ''dateHourMinute'' then Some [Year, Month, Day, Hour, Minute]
      else if field_name = ''date'' then Some [Year, Month, Day]
      else if field_name = ''firstSessionDate'' then Some [Year, Month, Day]
      else None)"

definition parse_datetime :: "string \<Rightarrow> string \<Rightarrow> error + string \<times> bool" where
  "parse_datetime field_name value =
     (case DATETIME_FORMATS field_name of
        None \<Rightarrow> Inl (KeyError field_name)
      | Some fmt \<Rightarrow>
          (case strptime value fmt of
             Inr dt \<Rightarrow> Inr (strftime dt, True)
           | Inl ValueError \<Rightarrow> Inr (value, False)
           | Inl e \<Rightarrow> Inl e))"

text \<open>
  The loop of \<open>transform_datetimes\<close> over \<open>rec.items()\<close>: the items are those of the
  record as it was passed, the assignments go to the record being built, and
  \<open>row_limit_reached\<close> is carried along.
\<close>

fun transform_items ::
  "(string \<times> string) list \<Rightarrow> py_dict \<Rightarrow> bool \<Rightarrow> error + py_dict \<times> bool" where
  "transform_items [] rec row_limit_reached = Inr (rec, row_limit_reached)"
| "transform_items ((field_name, value) # items) rec row_limit_reached =
     (if value \<noteq> [] \<and> DATETIME_FORMATS field_name \<noteq> None then
        (case parse_datetime field_name value of
           Inl e \<Rightarrow> Inl e
         | Inr (parsed, is_valid_datetime) \<Rightarrow>
             transform_items items (AList.update field_name parsed rec)
               (row_limit_reached \<or> (\<not> is_valid_datetime \<and> value = ''(other)'')))
      else transform_items items rec row_limit_reached)"

text \<open>
  The result is the record and the warnings logged: the name of the report when the
  row limit was reached, nothing otherwise.
\<close>

definition transform_datetimes :: "string \<Rightarrow> py_dict \<Rightarrow> error + py_dict \<times> string list" where
  "transform_datetimes report_name rec =
     (case transform_items rec rec False of
        Inl e \<Rightarrow> Inl e
      | Inr (rec', row_limit_reached) \<Rightarrow>
          Inr (rec', if row_limit_reached then [report_name] else []))"


subsection \<open>Dates and times\<close>

text \<open>
  A \<open>datetime\<close> (always in UTC here) is the number of microseconds since
  0001-01-01T00:00:00, the least value Python has; the greatest is the last microsecond
  of 9999-12-31. A calendar date, which the program writes as \<open>%Y-%m-%d\<close>, is the
  number of the day counted from 0001-01-01. Arithmetic that leaves the range raises
  OverflowError, and so does a \<open>timedelta\<close> beyond 999999999 days.
\<close>

type_synonym datetime = int
type_synonym date = int
type_synonym timedelta = int

definition DAY :: int where
  "DAY = 86400000000"

definition HOUR :: int where
  "HOUR = 3600000000"

definition SECOND :: int where
  "SECOND = 1000000"

definition MAX_DATETIME :: datetime where
  "MAX_DATETIME = 3652059 * DAY - 1"

definition timedelta_days :: "int \<Rightarrow> error + timedelta" where
  "timedelta_days n = (if - 999999999 \<le> n \<and> n \<le> 999999999 then Inr (n * DAY) else Inl OverflowError)"

definition datetime_add :: "datetime \<Rightarrow> timedelta \<Rightarrow> error + datetime" where
  "datetime_add t d = (if 0 \<le> t + d \<and> t + d \<le> MAX_DATETIME then Inr (t + d) else Inl OverflowError)"

text \<open>\<open>t.strftime("%Y-%m-%d")\<close>: the date of \<open>t\<close>.\<close>

definition date_of :: "datetime \<Rightarrow> date" where
  "date_of t = t div DAY"

text \<open>\<open>utils.strptime_to_utc\<close> of a date written by \<open>strftime\<close>: its midnight.\<close>

definition strptime_to_utc :: "date \<Rightarrow> datetime" where
  "strptime_to_utc d = d * DAY"

text \<open>\<open>t.replace(hour=0, minute=0, second=0, microsecond=0)\<close>.\<close>

definition midnight :: "datetime \<Rightarrow> datetime" where
  "midnight t = t - t mod DAY"

text \<open>\<open>d.seconds\<close> of a timedelta: the whole seconds within the day.\<close>

definition timedelta_seconds :: "timedelta \<Rightarrow> int" where
  "timedelta_seconds d = (d mod DAY) div SECOND"

subsection \<open>\<open>generate_report_dates\<close>\<close>

text \<open>
  The generator has no effect but the chunks it yields, so it is modelled by what it
  yields when run to its end: the chunks, and the error that ended it if one did. The
  value is \<open>None\<close> when it never ends.
\<close>

partial_function (option) report_dates_loop ::
  "datetime \<Rightarrow> datetime \<Rightarrow> int \<Rightarrow> (date \<times> date) list \<Rightarrow> ((date \<times> date) list \<times> error option) option" where
  "report_dates_loop range_start end_date request_range yielded =
     (if range_start \<le> end_date then
        (case timedelta_days (request_range - 1) of
           Inl e \<Rightarrow> Some (yielded, Some e)
         | Inr span \<Rightarrow>
            (case datetime_add range_start span of
               Inl e \<Rightarrow> Some (yielded, Some e)
             | Inr range_end \<Rightarrow>
                (case datetime_add range_end DAY of
                   Inl e \<Rightarrow> Some (yielded @ [(date_of range_start, date_of (min end_date range_end))], Some e)
                 | Inr next_start \<Rightarrow>
                     report_dates_loop next_start end_date request_range
                       (yielded @ [(date_of range_start, date_of (min end_date range_end))]))))
      else Some (yielded, None))"

declare report_dates_loop.simps [code]

definition generate_report_dates ::
  "datetime \<Rightarrow> datetime \<Rightarrow> int \<Rightarrow> ((date \<times> date) list \<times> error option) option" where
  "generate_report_dates start_date end_date request_range =
     report_dates_loop start_date end_date request_range []"

subsection \<open>\<open>get_report_start_date\<close>\<close>

definition CONVERSION_WINDOW :: int where
  "CONVERSION_WINDOW = 90"

definition REPORT_LIMIT :: int where
  "REPORT_LIMIT = 100000"

text \<open>
  The state holds, for a stream and a property, the bookmark \<open>last_report_date\<close>; the
  configuration holds the start date, already read by \<open>strptime_to_utc\<close>.
\<close>

record sync_state =
  bookmarks :: "((string \<times> string) \<times> date) list"
  currently_syncing :: "string option"

record config =
  config_start_date :: datetime
  config_end_date :: "datetime option"
  config_property_id :: string

definition get_bookmark :: "sync_state \<Rightarrow> string \<Rightarrow> string \<Rightarrow> date option" where
  "get_bookmark st tap_stream_id key = map_of (bookmarks st) (tap_stream_id, key)"

definition write_bookmark :: "sync_state \<Rightarrow> string \<Rightarrow> string \<Rightarrow> date \<Rightarrow> sync_state" where
  "write_bookmark st tap_stream_id key last_report_date =
     st\<lparr>bookmarks := AList.update (tap_stream_id, key) last_report_date (bookmarks st)\<rparr>"

text \<open>\<open>now\<close> is the value \<open>utils.now()\<close> returns.\<close>

definition get_report_start_date ::
  "config \<Rightarrow> string \<Rightarrow> sync_state \<Rightarrow> string \<Rightarrow> datetime \<Rightarrow> error + datetime" where
  "get_report_start_date cfg prop_id st tap_stream_id now =
     (let start_date = config_start_date cfg
      in case get_bookmark st tap_stream_id prop_id of
           None \<Rightarrow> Inr start_date
         | Some b \<Rightarrow>
            (let bookmark = strptime_to_utc b
             in case timedelta_days CONVERSION_WINDOW of
                  Inl e \<Rightarrow> Inl e
                | Inr window \<Rightarrow>
                   (case datetime_add (midnight now) (- window) of
                      Inl e \<Rightarrow> Inl e
                    | Inr conversion_day \<Rightarrow> Inr (min bookmark (max start_date conversion_day)))))"

subsection \<open>The remote API, the clock and the messages written\<close>

record request =
  property :: string
  request_dimensions :: "string list"
  request_metrics :: "string list"
  date_range :: "date \<times> date"
  limit :: int
  offset :: int
  return_property_quota :: bool

record response =
  dimension_headers :: "string list"
  metric_headers :: "string list"
  rows :: "row list"
  row_count :: int
  tokens_consumed :: int

text \<open>
  What the program is run against: the answer of the API to its \<open>n\<close>-th call, the
  \<open>n\<close>-th reading of the clock, and singer's \<open>Transformer.transform\<close> for the schema of
  the stream.
\<close>

record env =
  run_report :: "nat \<Rightarrow> request \<Rightarrow> api_error + response"
  utc_now :: "nat \<Rightarrow> datetime"
  transformer :: "py_dict \<Rightarrow> error + py_dict"

datatype event =
    Requested request
  | Slept int
  | Warned string
  | RecordWritten string py_dict datetime
  | StateWritten sync_state

text \<open>
  What the program changes: the calls made, the clock readings taken, the state it was
  passed, and the trace of what it did. The \<open>info\<close> lines of the log and the record
  counter are left out.
\<close>

record world =
  n_calls :: nat
  n_reads :: nat
  state :: sync_state
  trace :: "event list"

definition utils_now :: "env \<Rightarrow> world \<Rightarrow> datetime \<times> world" where
  "utils_now ev w = (utc_now ev (n_reads w), w\<lparr>n_reads := Suc (n_reads w)\<rparr>)"

definition time_sleep :: "int \<Rightarrow> world \<Rightarrow> world" where
  "time_sleep seconds w = w\<lparr>trace := trace w @ [Slept seconds]\<rparr>"

definition client_run_report :: "env \<Rightarrow> request \<Rightarrow> world \<Rightarrow> (api_error + response) \<times> world" where
  "client_run_report ev req w =
     (run_report ev (n_calls w) req,
      w\<lparr>n_calls := Suc (n_calls w), trace := trace w @ [Requested req]\<rparr>)"

subsection \<open>\<open>seconds_to_next_hour\<close> and \<open>sleep_if_quota_reached\<close>\<close>

definition seconds_to_next_hour :: "datetime \<Rightarrow> error + int" where
  "seconds_to_next_hour current_utc_time =
     (case datetime_add current_utc_time HOUR of
        Inl e \<Rightarrow> Inl e
      | Inr t \<Rightarrow>
         (let next_hour = t - t mod HOUR + 10 * SECOND
          in Inr (timedelta_seconds (next_hour - current_utc_time))))"

definition sleep_if_quota_reached :: "env \<Rightarrow> api_error \<Rightarrow> world \<Rightarrow> (error + bool) \<times> world" where
  "sleep_if_quota_reached ev ex w =
     (if ex = ResourceExhausted then
        (let (now, w1) = utils_now ev w
         in case seconds_to_next_hour now of
              Inl e \<Rightarrow> (Inl e, w1)
            | Inr seconds \<Rightarrow> (Inr False, time_sleep seconds w1))
      else (Inr False, w))"

subsection \<open>\<open>make_request\<close>\<close>

text \<open>The function as written, before the decorator.\<close>

definition make_request_body ::
  "env \<Rightarrow> report \<Rightarrow> date \<Rightarrow> date \<Rightarrow> int \<Rightarrow> world \<Rightarrow> (api_error + response \<times> bool \<times> int) \<times> world" where
  "make_request_body ev rep range_start_date range_end_date offs w =
     (let req = \<lparr>property = ''properties/'' @ property_id rep,
                 request_dimensions = dimensions rep,
                 request_metrics = metrics rep,
                 date_range = (range_start_date, range_end_date),
                 limit = REPORT_LIMIT,
                 offset = offs,
                 return_property_quota = True\<rparr>
      in case client_run_report ev req w of
           (Inl ex, w1) \<Rightarrow> (Inl ex, w1)
         | (Inr resp, w1) \<Rightarrow> (Inr (resp, REPORT_LIMIT + offs < row_count resp, offs + REPORT_LIMIT), w1))"

text \<open>
  The decorator \<open>backoff.on_exception(backoff.expo, (ServerError, TooManyRequests,
  ResourceExhausted), max_tries=5, jitter=None, giveup=sleep_if_quota_reached)\<close> of
  backoff 1.8.0, the version \<open>setup.py\<close> requires. Its loop counts \<open>tries\<close> from 1. When
  the call raises one of the listed exceptions it evaluates
  \<open>giveup(e) or tries == max_tries\<close> and raises the exception again if that holds;
  otherwise it sleeps for the next value of \<open>backoff.expo\<close> (1, 2, 4, ... seconds) and
  calls again. Any other exception passes through. The model counts the tries that are
  left, \<open>max_tries - tries\<close>, next to \<open>tries\<close>.
\<close>

definition retryable :: "api_error \<Rightarrow> bool" where
  "retryable ex \<longleftrightarrow> ex = ServerError \<or> ex = TooManyRequests \<or> ex = ResourceExhausted"

fun retry_make_request ::
  "env \<Rightarrow> report \<Rightarrow> date \<Rightarrow> date \<Rightarrow> int \<Rightarrow> nat \<Rightarrow> nat \<Rightarrow> world
     \<Rightarrow> (error + response \<times> bool \<times> int) \<times> world" where
  "retry_make_request ev rep range_start_date range_end_date offs tries left w =
     (case make_request_body ev rep range_start_date range_end_date offs w of
        (Inr ret, w1) \<Rightarrow> (Inr ret, w1)
      | (Inl ex, w1) \<Rightarrow>
          (if retryable ex then
             (case sleep_if_quota_reached ev ex w1 of
                (Inl e, w2) \<Rightarrow> (Inl e, w2)
              | (Inr giveup, w2) \<Rightarrow>
                  (case left of
                     0 \<Rightarrow> (Inl (ApiError ex), w2)
                   | Suc left' \<Rightarrow>
                       (if giveup then (Inl (ApiError ex), w2)
                        else retry_make_request ev rep range_start_date range_end_date offs
                               (Suc tries) left' (time_sleep (2 ^ (tries - 1)) w2))))
           else (Inl (ApiError ex), w1)))"

definition max_tries :: nat where
  "max_tries = 5"

definition make_request ::
  "env \<Rightarrow> report \<Rightarrow> date \<Rightarrow> date \<Rightarrow> int \<Rightarrow> world \<Rightarrow> (error + response \<times> bool \<times> int) \<times> world" where
  "make_request ev rep range_start_date range_end_date offs w =
     retry_make_request ev rep range_start_date range_end_date offs 1 (max_tries - 1) w"

subsection \<open>\<open>get_report\<close>\<close>

text \<open>
  The generator runs between the steps of the loop that consumes it: each \<open>yield\<close> hands
  a response to the body of that loop, and the next request is made when the body is
  done. The model takes the body as the argument \<open>yield\<close>, which works on a value \<open>acc\<close>
  of the consumer and on the world. The value is \<open>None\<close> when the loop never ends.
\<close>

partial_function (option) get_report_from ::
  "env \<Rightarrow> report \<Rightarrow> date \<Rightarrow> date \<Rightarrow> (response \<Rightarrow> 'a \<Rightarrow> world \<Rightarrow> (error + 'a) \<times> world)
     \<Rightarrow> int \<Rightarrow> 'a \<Rightarrow> world \<Rightarrow> ((error + 'a) \<times> world) option" where
  "get_report_from ev rep range_start_date range_end_date yield offs acc w =
     (case make_request ev rep range_start_date range_end_date offs w of
        (Inl e, w1) \<Rightarrow> Some (Inl e, w1)
      | (Inr (resp, has_more_rows, offs'), w1) \<Rightarrow>
          (case yield resp acc w1 of
             (Inl e, w2) \<Rightarrow> Some (Inl e, w2)
           | (Inr acc', w2) \<Rightarrow>
               (if has_more_rows
                then get_report_from ev rep range_start_date range_end_date yield offs' acc' w2
                else Some (Inr acc', w2))))"

declare get_report_from.simps [code]

definition get_report ::
  "env \<Rightarrow> report \<Rightarrow> date \<Rightarrow> date \<Rightarrow> (response \<Rightarrow> 'a \<Rightarrow> world \<Rightarrow> (error + 'a) \<times> world)
     \<Rightarrow> 'a \<Rightarrow> world \<Rightarrow> ((error + 'a) \<times> world) option" where
  "get_report ev rep range_start_date range_end_date yield acc w =
     get_report_from ev rep range_start_date range_end_date yield 0 acc w"

text \<open>\<open>list(get_report(...))\<close>: the consumer that keeps the pages.\<close>

definition collect :: "response \<Rightarrow> response list \<Rightarrow> world \<Rightarrow> (error + response list) \<times> world" where
  "collect resp acc w = (Inr (acc @ [resp]), w)"

subsection \<open>\<open>sync_report\<close>\<close>

definition write_record :: "string \<Rightarrow> py_dict \<Rightarrow> datetime \<Rightarrow> world \<Rightarrow> world" where
  "write_record stream_name rec time_extracted w =
     w\<lparr>trace := trace w @ [RecordWritten stream_name rec time_extracted]\<rparr>"

definition write_state :: "world \<Rightarrow> world" where
  "write_state w = w\<lparr>trace := trace w @ [StateWritten (state w)]\<rparr>"

definition log_warnings :: "string list \<Rightarrow> world \<Rightarrow> world" where
  "log_warnings msgs w = w\<lparr>trace := trace w @ map Warned msgs\<rparr>"

text \<open>The loop over the rows of one response.\<close>

fun sync_rows ::
  "env \<Rightarrow> report \<Rightarrow> string list \<Rightarrow> string list \<Rightarrow> row list \<Rightarrow> world \<Rightarrow> (error + unit) \<times> world" where
  "sync_rows ev rep dim_headers met_headers [] w = (Inr (), w)"
| "sync_rows ev rep dim_headers met_headers (r # rs) w =
     (let (time_extracted, w1) = utils_now ev w
      in case row_to_record rep r dim_headers met_headers of
           Inl e \<Rightarrow> (Inl e, w1)
         | Inr rec \<Rightarrow>
            (case transform_datetimes (name rep) rec of
               Inl e \<Rightarrow> (Inl e, w1)
             | Inr (rec', warnings) \<Rightarrow>
                (case transformer ev rec' of
                   Inl e \<Rightarrow> (Inl e, log_warnings warnings w1)
                 | Inr rec'' \<Rightarrow>
                     sync_rows ev rep dim_headers met_headers rs
                       (write_record (name rep) rec'' time_extracted (log_warnings warnings w1)))))"

text \<open>
  The body of the loop over the responses of \<open>get_report\<close>: the rows, then
  \<open>write_bookmark\<close> and \<open>write_state\<close>, which the source has inside this loop.
\<close>

definition sync_response ::
  "env \<Rightarrow> report \<Rightarrow> date \<Rightarrow> response \<Rightarrow> unit \<Rightarrow> world \<Rightarrow> (error + unit) \<times> world" where
  "sync_response ev rep range_end_date resp u w =
     (case sync_rows ev rep (dimension_headers resp) (metric_headers resp) (rows resp) w of
        (Inl e, w1) \<Rightarrow> (Inl e, w1)
      | (Inr u', w1) \<Rightarrow>
          (Inr (),
           write_state
             (w1\<lparr>state := write_bookmark (state w1) (report_id rep) (property_id rep) range_end_date\<rparr>)))"

text \<open>The loop over the chunks, then the error that ended the generator, if any.\<close>

fun sync_chunks ::
  "env \<Rightarrow> report \<Rightarrow> (date \<times> date) list \<Rightarrow> error option \<Rightarrow> world \<Rightarrow> ((error + unit) \<times> world) option" where
  "sync_chunks ev rep [] None w = Some (Inr (), w)"
| "sync_chunks ev rep [] (Some e) w = Some (Inl e, w)"
| "sync_chunks ev rep ((range_start_date, range_end_date) # chunks) err w =
     (case get_report ev rep range_start_date range_end_date
             (sync_response ev rep range_end_date) () w of
        None \<Rightarrow> None
      | Some (Inl e, w1) \<Rightarrow> Some (Inl e, w1)
      | Some (Inr u, w1) \<Rightarrow> sync_chunks ev rep chunks err w1)"

definition sync_report ::
  "env \<Rightarrow> report \<Rightarrow> datetime \<Rightarrow> datetime \<Rightarrow> int \<Rightarrow> world \<Rightarrow> ((error + unit) \<times> world) option" where
  "sync_report ev rep start_date end_date request_range w =
     (case generate_report_dates start_date end_date request_range of
        None \<Rightarrow> None
      | Some (chunks, err) \<Rightarrow> sync_chunks ev rep chunks err w)"


subsection \<open>Notions used in the statements\<close>

text \<open>The first position of \<open>'date'\<close> among the headers, when it is there.\<close>

definition date_pos :: "string list \<Rightarrow> nat" where
  "date_pos hs = length (takeWhile (\<lambda>h. h \<noteq> ''date'') hs)"

text \<open>The record of \<open>row_to_record\<close> before the hash is stored, for the report date \<open>d\<close>.\<close>

definition base_record :: "report \<Rightarrow> row \<Rightarrow> string list \<Rightarrow> string list \<Rightarrow> string \<Rightarrow> py_dict" where
  "base_record rep r dh mh d =
     AList.update ''property_id'' (property_id rep)
       (AList.update ''end_date'' d
         (AList.update ''start_date'' d
           (dict_update (dict_update [] (zip dh (dimension_values r)))
              (zip mh (metric_values r)))))"

subsection \<open>Inputs of the examples\<close>

definition example_report :: report where
  "example_report =
     \<lparr>property_id = ''123'', name = ''traffic'', report_id = ''traffic_id'',
      metrics = [''sessions''], dimensions = [''date'', ''country'']\<rparr>"

definition example_config :: config where
  "example_config =
     \<lparr>config_start_date = 700000 * DAY, config_end_date = None, config_property_id = ''123''\<rparr>"

definition example_state :: "date \<Rightarrow> sync_state" where
  "example_state d = \<lparr>bookmarks = [((''traffic_id'', ''123''), d)], currently_syncing = None\<rparr>"

text \<open>
  The chunks of the days \<open>a, ..., e\<close> in spans of \<open>n\<close> days, and the days of a chunk.
\<close>

function chunks_from :: "date \<Rightarrow> date \<Rightarrow> int \<Rightarrow> (date \<times> date) list" where
  "chunks_from a e n =
     (if a \<le> e \<and> 0 < n then (a, min e (a + n - 1)) # chunks_from (a + n) e n else [])"
  by pat_completeness auto
termination
  by (relation "measure (\<lambda>(a, e, n). nat (e - a + 1))") auto

definition days_of :: "date \<times> date \<Rightarrow> date list" where
  "days_of c = [fst c..snd c]"

declare chunks_from.simps [simp del]

text \<open>The request of \<open>make_request\<close> for an offset, and the world after it was sent.\<close>

definition page_request :: "report \<Rightarrow> date \<Rightarrow> date \<Rightarrow> int \<Rightarrow> request" where
  "page_request rep range_start_date range_end_date offs =
     \<lparr>property = ''properties/'' @ property_id rep,
      request_dimensions = dimensions rep,
      request_metrics = metrics rep,
      date_range = (range_start_date, range_end_date),
      limit = REPORT_LIMIT,
      offset = offs,
      return_property_quota = True\<rparr>"

definition requested :: "report \<Rightarrow> date \<Rightarrow> date \<Rightarrow> int \<Rightarrow> world \<Rightarrow> world" where
  "requested rep s e offs w =
     w\<lparr>n_calls := Suc (n_calls w), trace := trace w @ [Requested (page_request rep s e offs)]\<rparr>"


definition example_row :: row where
  "example_row = \<lparr>dimension_values = [''20210801'', ''US''], metric_values = [''5'']\<rparr>"

definition example_response :: "nat \<Rightarrow> int \<Rightarrow> response" where
  "example_response k n =
     \<lparr>dimension_headers = [''date'', ''country''], metric_headers = [''sessions''],
      rows = replicate k example_row, row_count = n, tokens_consumed = 1\<rparr>"

definition example_world :: world where
  "example_world =
     \<lparr>n_calls = 0, n_reads = 0, state = \<lparr>bookmarks = [], currently_syncing = None\<rparr>, trace = []\<rparr>"

definition constant_env :: "(api_error + response) \<Rightarrow> env" where
  "constant_env answer =
     \<lparr>run_report = (\<lambda>n req. answer), utc_now = (\<lambda>n. 738000 * DAY + 5 * SECOND), transformer = Inr\<rparr>"

text \<open>
  Ten seconds past the top of the hour after \<open>now\<close>, and the world after the clock was
  read and the program slept.
\<close>

definition next_hour_plus_10 :: "datetime \<Rightarrow> datetime" where
  "next_hour_plus_10 now = (now div HOUR + 1) * HOUR + 10 * SECOND"

definition slept :: "int \<Rightarrow> world \<Rightarrow> world" where
  "slept seconds w = w\<lparr>n_reads := Suc (n_reads w), trace := trace w @ [Slept seconds]\<rparr>"


definition flaky_env :: "nat \<Rightarrow> response \<Rightarrow> env" where
  "flaky_env k resp =
     \<lparr>run_report = (\<lambda>n req. if n < k then Inl ResourceExhausted else Inr resp),
      utc_now = (\<lambda>n. 738000 * DAY + 5 * SECOND), transformer = Inr\<rparr>"

text \<open>
  What \<open>transform_datetimes\<close> does to one field, and the fields that raise the
  row-limit warning.
\<close>

definition transform_value :: "string \<Rightarrow> string \<Rightarrow> string" where
  "transform_value field_name value =
     (case DATETIME_FORMATS field_name of
        None \<Rightarrow> value
      | Some fmt \<Rightarrow>
          (if value = [] then value
           else (case strptime value fmt of Inr dt \<Rightarrow> strftime dt | Inl e \<Rightarrow> value)))"

definition row_limit_value :: "string \<Rightarrow> string \<Rightarrow> bool" where
  "row_limit_value field_name value \<longleftrightarrow>
     (case DATETIME_FORMATS field_name of
        None \<Rightarrow> False
      | Some fmt \<Rightarrow> value \<noteq> [] \<and> isl (strptime value fmt) \<and> value = ''(other)'')"


text \<open>
  The seconds the give-up handler sleeps at the \<open>n\<close>-th reading of the clock, the world
  after the handler ran on an error, and the world after \<open>k\<close> failed attempts that were
  each followed by the handler and the backoff wait, \<open>tries\<close> being the number of the
  first of them.
\<close>

definition quota_seconds :: "env \<Rightarrow> nat \<Rightarrow> int" where
  "quota_seconds ev n = (next_hour_plus_10 (utc_now ev n) - utc_now ev n) div SECOND"

definition handled :: "env \<Rightarrow> api_error \<Rightarrow> world \<Rightarrow> world" where
  "handled ev ex w =
     (if ex = ResourceExhausted then slept (quota_seconds ev (n_reads w)) w else w)"

fun after_failures ::
  "env \<Rightarrow> report \<Rightarrow> date \<Rightarrow> date \<Rightarrow> int \<Rightarrow> (nat \<Rightarrow> api_error) \<Rightarrow> nat \<Rightarrow> nat \<Rightarrow> world \<Rightarrow> world" where
  "after_failures ev rep s e offs ex tries 0 w = w"
| "after_failures ev rep s e offs ex tries (Suc k) w =
     after_failures ev rep s e offs (\<lambda>j. ex (Suc j)) (Suc tries) k
       (time_sleep (2 ^ (tries - 1)) (handled ev (ex 0) (requested rep s e offs w)))"

text \<open>
  The record of the example row as \<open>row_to_record\<close> returns it and as it is written,
  and an API that answers with two pages of 100000 and 50000 rows.
\<close>

definition example_raw_record :: py_dict where
  "example_raw_record =
     [(''date'', ''20210801''), (''country'', ''US''), (''sessions'', ''5''),
      (''start_date'', ''20210801''), (''end_date'', ''20210801''), (''property_id'', ''123''),
      (''_sdc_record_hash'',
       hexdigest (sha256 (hash_source_bytes ''123''
         [(''date'', ''20210801''), (''country'', ''US'')] ''20210801'' ''20210801'')))]"

definition example_output_record :: py_dict where
  "example_output_record =
     [(''date'', ''2021-08-01T00:00:00.000000Z''), (''country'', ''US''), (''sessions'', ''5''),
      (''start_date'', ''20210801''), (''end_date'', ''20210801''), (''property_id'', ''123''),
      (''_sdc_record_hash'',
       hexdigest (sha256 (hash_source_bytes ''123''
         [(''date'', ''20210801''), (''country'', ''US'')] ''20210801'' ''20210801'')))]"

definition two_page_env :: env where
  "two_page_env =
     \<lparr>run_report = (\<lambda>n req. Inr (if offset req = 0 then example_response 100000 150000
                                    else example_response 50000 150000)),
      utc_now = (\<lambda>n. 738009 * DAY + 5 * SECOND), transformer = Inr\<rparr>"

section \<open>Properties\<close>

subsection \<open>Lists and dictionaries\<close>

lemma list_index_absent: "x \<notin> set ys \<Longrightarrow> list_index ys x = Inl ValueError"
  by (induction ys) auto

lemma list_index_present:
  "x \<in> set ys \<Longrightarrow> list_index ys x = Inr (length (takeWhile (\<lambda>y. y \<noteq> x) ys))"
  by (induction ys) auto

lemma dict_get_update_same: "dict_get (AList.update k v d) k = Inr v"
  by (simp add: dict_get_def update_conv')

lemma dict_get_update_other: "k' \<noteq> k \<Longrightarrow> dict_get (AList.update k v d) k' = dict_get d k'"
  by (simp add: dict_get_def update_conv')

subsection \<open>\<open>row_to_record\<close>\<close>

lemma generate_hash_base:
  "generate_sdc_record_hash (base_record rep r dh mh d) pairs =
     Inr (hexdigest (sha256 (hash_source_bytes (property_id rep) pairs d d)))"
  by (simp add: generate_sdc_record_hash_def base_record_def dict_get_update_same
      dict_get_update_other)

lemma row_to_record_present:
  assumes "''date'' \<in> set dh" and "date_pos dh < length (dimension_values r)"
  shows "row_to_record rep r dh mh =
     Inr (AList.update ''_sdc_record_hash''
            (hexdigest (sha256 (hash_source_bytes (property_id rep)
               (zip dh (dimension_values r))
               (dimension_values r ! date_pos dh) (dimension_values r ! date_pos dh))))
            (base_record rep r dh mh (dimension_values r ! date_pos dh)))"
  using assms generate_hash_base[of rep r dh mh "dimension_values r ! date_pos dh"]
  by (simp add: row_to_record_def list_index_present list_get_def date_pos_def Let_def
      base_record_def)

lemma row_to_record_absent:
  "''date'' \<notin> set dh \<Longrightarrow> row_to_record rep r dh mh = Inl ValueError"
  by (simp add: row_to_record_def list_index_absent Let_def)

lemma row_to_record_short:
  "''date'' \<in> set dh \<Longrightarrow> length (dimension_values r) \<le> date_pos dh \<Longrightarrow>
   row_to_record rep r dh mh = Inl IndexError"
  by (simp add: row_to_record_def list_index_present list_get_def date_pos_def Let_def)

lemma row_to_record_Inr_iff:
  "(\<exists>rec. row_to_record rep r dh mh = Inr rec) \<longleftrightarrow>
   ''date'' \<in> set dh \<and> date_pos dh < length (dimension_values r)"
proof (cases "''date'' \<in> set dh")
  case False
  then show ?thesis by (simp add: row_to_record_absent)
next
  case True
  show ?thesis
  proof (cases "date_pos dh < length (dimension_values r)")
    case True
    with \<open>''date'' \<in> set dh\<close> show ?thesis by (simp add: row_to_record_present)
  next
    case False
    with \<open>''date'' \<in> set dh\<close> show ?thesis by (simp add: row_to_record_short)
  qed
qed

text \<open>
  C8, as the specification states it: a row whose number of dimension values differs
  from the number of dimension headers, or whose number of metric values differs from
  the number of metric headers, makes \<open>row_to_record\<close> fail. The code does not: here two
  dimension headers meet one dimension value and one metric header meets no metric
  value, and a record is returned.
\<close>

theorem row_to_record_mismatch_counterexample:
  "length (dimension_values \<lparr>dimension_values = [''20230101''], metric_values = []\<rparr>)
     \<noteq> length [''date'', ''country'']
   \<and> length (metric_values \<lparr>dimension_values = [''20230101''], metric_values = []\<rparr>)
     \<noteq> length [''sessions'']
   \<and> row_to_record example_report \<lparr>dimension_values = [''20230101''], metric_values = []\<rparr>
        [''date'', ''country''] [''sessions'']
     = Inr [(''date'', ''20230101''), (''start_date'', ''20230101''),
            (''end_date'', ''20230101''), (''property_id'', ''123''),
            (''_sdc_record_hash'',
             hexdigest (sha256 (hash_source_bytes ''123'' [(''date'', ''20230101'')]
               ''20230101'' ''20230101'')))]"
  by (simp add: row_to_record_def generate_sdc_record_hash_def dict_get_def dict_update_def
      list_get_def example_report_def)

text \<open>
  C8, amended: \<open>row_to_record\<close> does not compare the lengths (\<open>zip\<close> stops at the shorter
  list). It fails exactly in two cases: with ValueError when \<open>'date'\<close> is not among the
  dimension headers, and with IndexError when the first position of \<open>'date'\<close> is not
  below the number of dimension values of the row. In every other case it returns a
  record, whatever the lengths of the metric headers and of the metric values.
\<close>

theorem row_to_record_failures:
  "(''date'' \<notin> set dh \<longrightarrow> row_to_record rep r dh mh = Inl ValueError)
   \<and> (''date'' \<in> set dh \<and> length (dimension_values r) \<le> date_pos dh
        \<longrightarrow> row_to_record rep r dh mh = Inl IndexError)
   \<and> (''date'' \<in> set dh \<and> date_pos dh < length (dimension_values r)
        \<longrightarrow> (\<exists>rec. row_to_record rep r dh mh = Inr rec))"
  by (simp add: row_to_record_absent row_to_record_short row_to_record_present)

theorem row_to_record_failures_witness:
  "row_to_record example_report \<lparr>dimension_values = [''US''], metric_values = [''5'']\<rparr>
      [''country''] [''sessions''] = Inl ValueError
   \<and> row_to_record example_report \<lparr>dimension_values = [''US''], metric_values = [''5'']\<rparr>
      [''country'', ''date''] [''sessions''] = Inl IndexError
   \<and> (\<exists>rec. row_to_record example_report
        \<lparr>dimension_values = [''20230101''], metric_values = [''5'', ''6'']\<rparr>
        [''date'', ''country''] [''sessions''] = Inr rec)"
  using
    row_to_record_failures [of "[''country'']" example_report
      "\<lparr>dimension_values = [''US''], metric_values = [''5'']\<rparr>" "[''sessions'']"]
    row_to_record_failures [of "[''country'', ''date'']" example_report
      "\<lparr>dimension_values = [''US''], metric_values = [''5'']\<rparr>" "[''sessions'']"]
    row_to_record_failures [of "[''date'', ''country'']" example_report
      "\<lparr>dimension_values = [''20230101''], metric_values = [''5'', ''6'']\<rparr>" "[''sessions'']"]
  by (simp add: date_pos_def)

text \<open>
  C9: \<open>row_to_record\<close> returns a record only when \<open>'date'\<close> is among the dimension
  headers; when it is not, the call raises (ValueError). In a record that is returned,
  \<open>start_date\<close> and \<open>end_date\<close> are both the row's dimension value at the position of
  \<open>'date'\<close>.
\<close>

theorem row_to_record_date:
  "(''date'' \<notin> set dh \<longrightarrow> row_to_record rep r dh mh = Inl ValueError)
   \<and> (\<forall>rec. row_to_record rep r dh mh = Inr rec \<longrightarrow>
         ''date'' \<in> set dh \<and> date_pos dh < length (dimension_values r)
         \<and> dict_get rec ''start_date'' = Inr (dimension_values r ! date_pos dh)
         \<and> dict_get rec ''end_date'' = Inr (dimension_values r ! date_pos dh))"
proof (intro conjI allI impI)
  assume "''date'' \<notin> set dh"
  then show "row_to_record rep r dh mh = Inl ValueError"
    by (rule row_to_record_absent)
next
  fix rec
  assume ok: "row_to_record rep r dh mh = Inr rec"
  then have present: "''date'' \<in> set dh" and pos: "date_pos dh < length (dimension_values r)"
    using row_to_record_Inr_iff [of rep r dh mh] by auto
  from present show "''date'' \<in> set dh" .
  from pos show "date_pos dh < length (dimension_values r)" .
  from ok row_to_record_present [OF present pos, of rep mh]
  have rec: "rec = AList.update ''_sdc_record_hash''
            (hexdigest (sha256 (hash_source_bytes (property_id rep)
               (zip dh (dimension_values r))
               (dimension_values r ! date_pos dh) (dimension_values r ! date_pos dh))))
            (base_record rep r dh mh (dimension_values r ! date_pos dh))"
    by simp
  show "dict_get rec ''start_date'' = Inr (dimension_values r ! date_pos dh)"
    by (simp add: rec base_record_def dict_get_update_same dict_get_update_other)
  show "dict_get rec ''end_date'' = Inr (dimension_values r ! date_pos dh)"
    by (simp add: rec base_record_def dict_get_update_same dict_get_update_other)
qed

theorem row_to_record_date_witness:
  "row_to_record example_report \<lparr>dimension_values = [''US''], metric_values = [''5'']\<rparr>
      [''country''] [''sessions''] = Inl ValueError
   \<and> (\<exists>rec. row_to_record example_report
          \<lparr>dimension_values = [''US'', ''20230101''], metric_values = [''5'']\<rparr>
          [''country'', ''date''] [''sessions''] = Inr rec
        \<and> dict_get rec ''start_date'' = Inr ''20230101''
        \<and> dict_get rec ''end_date'' = Inr ''20230101'')"
proof -
  obtain rec where rec: "row_to_record example_report
      \<lparr>dimension_values = [''US'', ''20230101''], metric_values = [''5'']\<rparr>
      [''country'', ''date''] [''sessions''] = Inr rec"
    using row_to_record_Inr_iff [of example_report
      "\<lparr>dimension_values = [''US'', ''20230101''], metric_values = [''5'']\<rparr>"
      "[''country'', ''date'']" "[''sessions'']"]
    by (auto simp add: date_pos_def)
  from rec
    row_to_record_date [of "[''country'', ''date'']" example_report
      "\<lparr>dimension_values = [''US'', ''20230101''], metric_values = [''5'']\<rparr>" "[''sessions'']"]
    row_to_record_date [of "[''country'']" example_report
      "\<lparr>dimension_values = [''US''], metric_values = [''5'']\<rparr>" "[''sessions'']"]
  show ?thesis by (auto simp add: date_pos_def)
qed

subsection \<open>\<open>get_report_start_date\<close>\<close>

lemma DAY_pos: "0 < DAY" by (simp add: DAY_def)

lemma midnight_le: "midnight t \<le> t"
  by (simp add: midnight_def DAY_def)

lemma conversion_day_ok:
  assumes "90 * DAY \<le> now" "now \<le> MAX_DATETIME"
  shows "datetime_add (midnight now) (- (CONVERSION_WINDOW * DAY)) = Inr (midnight now - 90 * DAY)"
proof -
  have "90 * DAY \<le> midnight now"
  proof -
    have "now div DAY \<ge> 90" using assms(1) DAY_pos
      by (simp add: DAY_def) 
    then have "90 * DAY \<le> (now div DAY) * DAY" using DAY_pos by simp
    moreover have "midnight now = (now div DAY) * DAY"
      by (simp add: midnight_def minus_mod_eq_div_mult)
    ultimately show ?thesis by simp
  qed
  moreover have "midnight now \<le> MAX_DATETIME" using midnight_le [of now] assms(2) by simp
  ultimately show ?thesis using DAY_pos
    by (simp add: datetime_add_def CONVERSION_WINDOW_def)
qed

text \<open>
  C5, as the specification states it: a bookmark older than now - 90 days yields
  max(configured start, now - 90 days), and a bookmark within the window and after the
  configured start yields the bookmark itself. The code returns the opposite in both
  cases: with the start date on day 700000 and now on day 738000 (the window begins on
  day 737910), the bookmark of day 737000 is returned as it is, and the bookmark of day
  737950 yields the beginning of the window.
\<close>

theorem get_report_start_date_counterexample:
  "get_report_start_date example_config ''123'' (example_state 737000) ''traffic_id''
      (738000 * DAY + 5 * HOUR) = Inr (strptime_to_utc 737000)
   \<and> strptime_to_utc 737000 < midnight (738000 * DAY + 5 * HOUR) - 90 * DAY
   \<and> strptime_to_utc 737000 \<noteq> max (config_start_date example_config) (midnight (738000 * DAY + 5 * HOUR) - 90 * DAY)
   \<and> get_report_start_date example_config ''123'' (example_state 737950) ''traffic_id''
      (738000 * DAY + 5 * HOUR) = Inr (midnight (738000 * DAY + 5 * HOUR) - 90 * DAY)
   \<and> midnight (738000 * DAY + 5 * HOUR) - 90 * DAY \<le> strptime_to_utc 737950
   \<and> config_start_date example_config < strptime_to_utc 737950
   \<and> strptime_to_utc 737950 \<noteq> midnight (738000 * DAY + 5 * HOUR) - 90 * DAY"
  by (simp add: get_report_start_date_def get_bookmark_def example_config_def example_state_def
      strptime_to_utc_def midnight_def timedelta_days_def datetime_add_def CONVERSION_WINDOW_def
      MAX_DATETIME_def DAY_def HOUR_def)

text \<open>
  C5, amended: when the bookmark is absent, \<open>get_report_start_date\<close> returns the
  configured start date. Otherwise (now being a datetime at least 90 days after the
  earliest one) it returns min(bookmark, max(configured start, conversion day)), where
  the conversion day is now truncated to midnight minus 90 days: a bookmark that is not
  later than max(configured start, conversion day), such as one older than the window,
  yields the bookmark itself, and a later bookmark yields
  max(configured start, conversion day).
\<close>

theorem get_report_start_date_cases:
  "(get_bookmark st tap_stream_id prop_id = None \<longrightarrow>
      get_report_start_date cfg prop_id st tap_stream_id now = Inr (config_start_date cfg))
   \<and> (get_bookmark st tap_stream_id prop_id = Some b \<and> 90 * DAY \<le> now \<and> now \<le> MAX_DATETIME \<longrightarrow>
        get_report_start_date cfg prop_id st tap_stream_id now
          = Inr (min (strptime_to_utc b) (max (config_start_date cfg) (midnight now - 90 * DAY)))
        \<and> (strptime_to_utc b \<le> max (config_start_date cfg) (midnight now - 90 * DAY) \<longrightarrow>
             get_report_start_date cfg prop_id st tap_stream_id now = Inr (strptime_to_utc b))
        \<and> (max (config_start_date cfg) (midnight now - 90 * DAY) \<le> strptime_to_utc b \<longrightarrow>
             get_report_start_date cfg prop_id st tap_stream_id now
               = Inr (max (config_start_date cfg) (midnight now - 90 * DAY))))"
proof -
  have absent: "get_bookmark st tap_stream_id prop_id = None \<Longrightarrow>
      get_report_start_date cfg prop_id st tap_stream_id now = Inr (config_start_date cfg)"
    by (simp add: get_report_start_date_def)
  have present: "get_report_start_date cfg prop_id st tap_stream_id now
          = Inr (min (strptime_to_utc b) (max (config_start_date cfg) (midnight now - 90 * DAY)))"
    if "get_bookmark st tap_stream_id prop_id = Some b" "90 * DAY \<le> now" "now \<le> MAX_DATETIME"
    using that conversion_day_ok [OF that(2,3)]
    by (simp add: get_report_start_date_def timedelta_days_def CONVERSION_WINDOW_def)
  show ?thesis using absent present by (auto simp add: min_def max_def)
qed

theorem get_report_start_date_cases_witness:
  "get_report_start_date example_config ''123'' \<lparr>bookmarks = [], currently_syncing = None\<rparr>
      ''traffic_id'' (738000 * DAY + 5 * HOUR) = Inr (700000 * DAY)
   \<and> get_report_start_date example_config ''123'' (example_state 737000) ''traffic_id''
      (738000 * DAY + 5 * HOUR) = Inr (737000 * DAY)
   \<and> get_report_start_date example_config ''123'' (example_state 737950) ''traffic_id''
      (738000 * DAY + 5 * HOUR) = Inr (737910 * DAY)"
  using
    get_report_start_date_cases [of "\<lparr>bookmarks = [], currently_syncing = None\<rparr>"
      "''traffic_id''" "''123''" example_config "738000 * DAY + 5 * HOUR" 0]
    get_report_start_date_cases [of "example_state 737000"
      "''traffic_id''" "''123''" example_config "738000 * DAY + 5 * HOUR" 737000]
    get_report_start_date_cases [of "example_state 737950"
      "''traffic_id''" "''123''" example_config "738000 * DAY + 5 * HOUR" 737950]
  by (simp add: get_bookmark_def example_config_def example_state_def
      strptime_to_utc_def midnight_def MAX_DATETIME_def DAY_def HOUR_def)

subsection \<open>\<open>generate_report_dates\<close>\<close>

lemma datetime_add_days_at:
  "0 \<le> a + k \<Longrightarrow> a + k \<le> 3652058 \<Longrightarrow> 0 \<le> t \<Longrightarrow> t < DAY \<Longrightarrow>
   datetime_add (a * DAY + t) (k * DAY) = Inr ((a + k) * DAY + t)"
  by (simp add: datetime_add_def MAX_DATETIME_def DAY_def algebra_simps)

lemma date_of_at: "0 \<le> t \<Longrightarrow> t < DAY \<Longrightarrow> date_of (a * DAY + t) = a"
  by (simp add: date_of_def DAY_def)

lemma le_at:
  "0 \<le> t \<Longrightarrow> t \<le> u \<Longrightarrow> u < DAY \<Longrightarrow> a * DAY + t \<le> e * DAY + u \<longleftrightarrow> a \<le> e"
  by (auto simp add: DAY_def)

lemma date_of_min_at:
  assumes "0 \<le> t" "t \<le> u" "u < DAY"
  shows "date_of (min (e * DAY + u) (b * DAY + t)) = min e b"
proof (cases "b \<le> e")
  case True
  then have "b * DAY + t \<le> e * DAY + u" using assms by (simp add: le_at)
  then show ?thesis using True assms by (simp add: min_def date_of_at)
next
  case False
  then have "\<not> b * DAY + t \<le> e * DAY + u" using assms by (simp add: le_at)
  then show ?thesis using False assms by (simp add: min_def date_of_at)
qed

lemma report_dates_loop_chunks_at:
  "0 < n \<Longrightarrow> 0 \<le> a \<Longrightarrow> e + n \<le> 3652058 \<Longrightarrow> 0 \<le> t \<Longrightarrow> t \<le> u \<Longrightarrow> u < DAY \<Longrightarrow>
   report_dates_loop (a * DAY + t) (e * DAY + u) n ys = Some (ys @ chunks_from a e n, None)"
proof (induction a e n arbitrary: ys rule: chunks_from.induct)
  case (1 a e n)
  have tod: "0 \<le> t" "t \<le> u" "u < DAY" "t < DAY" using 1(5,6,7) by simp_all
  show ?case
  proof (cases "a \<le> e")
    case False
    then show ?thesis
      by (subst report_dates_loop.simps) (simp add: le_at tod chunks_from.simps [of a e n])
  next
    case True
    have td: "timedelta_days (n - 1) = Inr ((n - 1) * DAY)"
      using 1(2,4) True 1(3) by (simp add: timedelta_days_def)
    have a1: "datetime_add (a * DAY + t) ((n - 1) * DAY) = Inr ((a + n - 1) * DAY + t)"
      using datetime_add_days_at [of a "n - 1" t] 1(2,3,4) True tod by (simp add: algebra_simps)
    have a2: "datetime_add ((a + n - 1) * DAY + t) DAY = Inr ((a + n) * DAY + t)"
      using datetime_add_days_at [of "a + n - 1" 1 t] 1(2,3,4) True tod by (simp add: algebra_simps)
    have ih: "report_dates_loop ((a + n) * DAY + t) (e * DAY + u) n (ys @ [(a, min e (a + n - 1))])
        = Some ((ys @ [(a, min e (a + n - 1))]) @ chunks_from (a + n) e n, None)"
      using 1(1) [of "ys @ [(a, min e (a + n - 1))]"] True 1(2,3,4) tod by simp
    show ?thesis
      apply (subst report_dates_loop.simps)
      apply (simp add: le_at tod True td a1 a2 date_of_at date_of_min_at ih)
      apply (subst chunks_from.simps [of a e n])
      using True 1(2) apply simp
      done
  qed
qed

lemma report_dates_loop_empty:
  "end_date < range_start \<Longrightarrow> report_dates_loop range_start end_date n ys = Some (ys, None)"
  by (subst report_dates_loop.simps) simp

lemma chunks_from_nonempty: "a \<le> e \<Longrightarrow> 0 < n \<Longrightarrow> chunks_from a e n \<noteq> []"
  by (subst chunks_from.simps) simp

lemma chunks_from_hd: "a \<le> e \<Longrightarrow> 0 < n \<Longrightarrow> fst (hd (chunks_from a e n)) = a"
  by (subst chunks_from.simps) simp

lemma chunks_from_last: "a \<le> e \<Longrightarrow> 0 < n \<Longrightarrow> snd (last (chunks_from a e n)) = e"
proof (induction a e n rule: chunks_from.induct)
  case (1 a e n)
  show ?case
  proof (cases "a + n \<le> e")
    case True
    then have "chunks_from (a + n) e n \<noteq> []" using 1(3) by (simp add: chunks_from_nonempty)
    then show ?thesis using 1 True by (subst chunks_from.simps) simp
  next
    case False
    then have "chunks_from (a + n) e n = []" by (subst chunks_from.simps) simp
    then show ?thesis using 1(2,3) False by (subst chunks_from.simps) (simp add: min_def)
  qed
qed

lemma chunks_from_days:
  "a \<le> e + 1 \<Longrightarrow> 0 < n \<Longrightarrow> concat (map days_of (chunks_from a e n)) = [a..e]"
proof (induction a e n rule: chunks_from.induct)
  case (1 a e n)
  show ?case
  proof (cases "a \<le> e")
    case False
    then show ?thesis using 1(2) by (subst chunks_from.simps) simp
  next
    case ae: True
    have unfold: "chunks_from a e n = (a, min e (a + n - 1)) # chunks_from (a + n) e n"
      using ae 1(3) by (subst chunks_from.simps) simp
    show ?thesis
    proof (cases "a + n \<le> e")
      case True
      have split: "[a..e] = [a..a + n - 1] @ [a + n..e]"
        using upto_split2 [of a "a + n - 1" e] True 1(3) by simp
      have ih: "concat (map days_of (chunks_from (a + n) e n)) = [a + n..e]"
        using 1(1) ae 1(3) True by simp
      have "days_of (a, min e (a + n - 1)) = [a..a + n - 1]"
        using True 1(3) by (simp add: days_of_def min_def)
      then show ?thesis by (simp add: unfold ih split)
    next
      case False
      then have nil: "chunks_from (a + n) e n = []" by (subst chunks_from.simps) simp
      have "days_of (a, min e (a + n - 1)) = [a..e]"
        using False by (simp add: days_of_def min_def)
      then show ?thesis by (simp add: unfold nil)
    qed
  qed
qed

lemma chunks_from_steps:
  "0 < n \<Longrightarrow> Suc i < length (chunks_from a e n) \<Longrightarrow>
   fst (chunks_from a e n ! Suc i) = snd (chunks_from a e n ! i) + 1
   \<and> snd (chunks_from a e n ! i) - fst (chunks_from a e n ! i) + 1 = n"
proof (induction a e n arbitrary: i rule: chunks_from.induct)
  case (1 a e n)
  from 1(3) have ae: "a \<le> e" by (subst (asm) chunks_from.simps) (simp split: if_splits)
  have unfold: "chunks_from a e n = (a, min e (a + n - 1)) # chunks_from (a + n) e n"
    using ae 1(2) by (subst chunks_from.simps) simp
  from 1(3) unfold have ne: "chunks_from (a + n) e n \<noteq> []" by auto
  then have an: "a + n \<le> e" by (subst (asm) chunks_from.simps) (simp split: if_splits)
  have hd': "fst (chunks_from (a + n) e n ! 0) = a + n"
    using chunks_from_hd [OF an 1(2)] ne by (simp add: hd_conv_nth)
  show ?case
  proof (cases i)
    case 0
    then show ?thesis using unfold hd' an by (simp add: min_def)
  next
    case (Suc j)
    then have "Suc j < length (chunks_from (a + n) e n)" using 1(3) unfold by simp
    from 1(1) [OF _ 1(2) this] ae 1(2) show ?thesis using unfold Suc by simp
  qed
qed

lemma chunks_from_last_size:
  "a \<le> e \<Longrightarrow> 0 < n \<Longrightarrow>
   1 \<le> snd (last (chunks_from a e n)) - fst (last (chunks_from a e n)) + 1
   \<and> snd (last (chunks_from a e n)) - fst (last (chunks_from a e n)) + 1 \<le> n"
proof (induction a e n rule: chunks_from.induct)
  case (1 a e n)
  show ?case
  proof (cases "a + n \<le> e")
    case True
    then have "chunks_from (a + n) e n \<noteq> []" using 1(3) by (simp add: chunks_from_nonempty)
    then show ?thesis using 1 True by (subst (1 2 3 4) chunks_from.simps) simp
  next
    case False
    then have "chunks_from (a + n) e n = []" by (subst chunks_from.simps) simp
    then show ?thesis using 1(2,3) False by (subst (1 2 3 4) chunks_from.simps) (simp add: min_def)
  qed
qed


text \<open>
  C2: for dates \<open>start_date \<le> end_date\<close> and a positive span the chunks shall begin at
  \<open>start_date\<close>, follow one another day by day and end exactly at \<open>end_date\<close>. The code
  compares datetimes and writes dates: with a start of 2021-08-01T10:00 (day 738002,
  the configured start date keeps its time of day), an end of 2021-08-08T00:00 (day
  738009) and a span of 7 it yields the single chunk 2021-08-01 to 2021-08-07, since
  the next start, 2021-08-08T10:00, is after the end; 2021-08-08 is never requested.
  From the midnight of the same day the chunks reach the end date.
\<close>

theorem generate_report_dates_time_of_day:
  "generate_report_dates (738002 * DAY + 10 * HOUR) (738009 * DAY) 7
     = Some ([(738002, 738008)], None)
   \<and> date_of (738002 * DAY + 10 * HOUR) = 738002
   \<and> date_of (738009 * DAY) = 738009
   \<and> generate_report_dates (738002 * DAY) (738009 * DAY) 7
     = Some ([(738002, 738008), (738009, 738009)], None)"
  unfolding generate_report_dates_def
  by (simp add: report_dates_loop.simps timedelta_days_def datetime_add_def MAX_DATETIME_def
      DAY_def HOUR_def date_of_def)

text \<open>
  The generator meets the description whenever the time of day of the start is not
  after that of the end (as for two midnights) and the end plus the span is not after
  9999-12-31 (day 3652058): it ends without error, the first chunk starts on the day of
  the start, each next one on the day after the end of the one before, every chunk but
  the last spans \<open>n\<close> days, the last one between 1 and \<open>n\<close> days and it ends on the day of
  the end, and the days of the chunks are the days from start to end, each once. When
  the start is after the end nothing is yielded.
\<close>

lemma generate_report_dates_chunks:
  "(0 \<le> s \<and> s \<le> e \<and> 0 < n \<and> e + n \<le> 3652058 \<and> 0 \<le> t \<and> t \<le> u \<and> u < DAY \<longrightarrow>
      (\<exists>chunks. generate_report_dates (s * DAY + t) (e * DAY + u) n = Some (chunks, None)
         \<and> chunks \<noteq> []
         \<and> fst (hd chunks) = s
         \<and> snd (last chunks) = e
         \<and> (\<forall>i. Suc i < length chunks \<longrightarrow>
               fst (chunks ! Suc i) = snd (chunks ! i) + 1
               \<and> snd (chunks ! i) - fst (chunks ! i) + 1 = n)
         \<and> 1 \<le> snd (last chunks) - fst (last chunks) + 1
         \<and> snd (last chunks) - fst (last chunks) + 1 \<le> n
         \<and> concat (map days_of chunks) = [s..e]))
   \<and> (end_date < start_date \<longrightarrow>
        generate_report_dates start_date end_date request_range = Some ([], None))"
proof (intro conjI impI)
  assume "end_date < start_date"
  then show "generate_report_dates start_date end_date request_range = Some ([], None)"
    by (simp add: generate_report_dates_def report_dates_loop_empty)
next
  assume h: "0 \<le> s \<and> s \<le> e \<and> 0 < n \<and> e + n \<le> 3652058 \<and> 0 \<le> t \<and> t \<le> u \<and> u < DAY"
  then have run: "generate_report_dates (s * DAY + t) (e * DAY + u) n
      = Some (chunks_from s e n, None)"
    by (simp add: generate_report_dates_def report_dates_loop_chunks_at)
  from h have "concat (map days_of (chunks_from s e n)) = [s..e]"
    by (simp add: chunks_from_days)
  with h run show "\<exists>chunks. generate_report_dates (s * DAY + t) (e * DAY + u) n = Some (chunks, None)
         \<and> chunks \<noteq> []
         \<and> fst (hd chunks) = s
         \<and> snd (last chunks) = e
         \<and> (\<forall>i. Suc i < length chunks \<longrightarrow>
               fst (chunks ! Suc i) = snd (chunks ! i) + 1
               \<and> snd (chunks ! i) - fst (chunks ! i) + 1 = n)
         \<and> 1 \<le> snd (last chunks) - fst (last chunks) + 1
         \<and> snd (last chunks) - fst (last chunks) + 1 \<le> n
         \<and> concat (map days_of chunks) = [s..e]"
    using chunks_from_nonempty [of s e n] chunks_from_hd [of s e n] chunks_from_last [of s e n]
      chunks_from_steps [of n _ s e] chunks_from_last_size [of s e n]
    by auto
qed

text \<open>
  Beyond the dates Python has the additions raise OverflowError: with a span of 7 the
  chunk that ends on 9999-12-31 is yielded and the step to the next start fails.
\<close>

lemma generate_report_dates_overflow:
  "generate_report_dates (3652052 * DAY) (3652058 * DAY) 7
     = Some ([(3652052, 3652058)], Some OverflowError)"
  unfolding generate_report_dates_def
  by (simp add: report_dates_loop.simps timedelta_days_def datetime_add_def MAX_DATETIME_def
      DAY_def date_of_def)

subsection \<open>\<open>make_request\<close> and \<open>get_report\<close>\<close>

lemma make_request_body_eq:
  "make_request_body ev rep s e offs w =
     (case run_report ev (n_calls w) (page_request rep s e offs) of
        Inl ex \<Rightarrow> (Inl ex, requested rep s e offs w)
      | Inr resp \<Rightarrow>
          (Inr (resp, REPORT_LIMIT + offs < row_count resp, offs + REPORT_LIMIT),
           requested rep s e offs w))"
  by (simp add: make_request_body_def client_run_report_def page_request_def requested_def
      split: sum.splits)

lemma retry_success:
  "run_report ev (n_calls w) (page_request rep s e offs) = Inr resp \<Longrightarrow>
   retry_make_request ev rep s e offs tries left w =
     (Inr (resp, REPORT_LIMIT + offs < row_count resp, offs + REPORT_LIMIT),
      requested rep s e offs w)"
  by (simp add: make_request_body_eq)

lemma make_request_success:
  "run_report ev (n_calls w) (page_request rep s e offs) = Inr resp \<Longrightarrow>
   make_request ev rep s e offs w =
     (Inr (resp, REPORT_LIMIT + offs < row_count resp, offs + REPORT_LIMIT),
      requested rep s e offs w)"
  unfolding make_request_def by (rule retry_success)

lemma requested_fields:
  "n_calls (requested rep s e offs w) = Suc (n_calls w)"
  "n_reads (requested rep s e offs w) = n_reads w"
  "state (requested rep s e offs w) = state w"
  "trace (requested rep s e offs w) = trace w @ [Requested (page_request rep s e offs)]"
  by (simp_all add: requested_def)

lemma get_report_from_pages:
  "(\<forall>j\<le>d. run_report ev (n_calls w + j)
              (page_request rep s e ((int m + int j) * REPORT_LIMIT)) = Inr (r j)) \<Longrightarrow>
   (\<forall>j<d. REPORT_LIMIT + (int m + int j) * REPORT_LIMIT < row_count (r j)) \<Longrightarrow>
   row_count (r d) \<le> REPORT_LIMIT + (int m + int d) * REPORT_LIMIT \<Longrightarrow>
   get_report_from ev rep s e collect (int m * REPORT_LIMIT) acc w =
     Some (Inr (acc @ map r [0..<Suc d]),
           w\<lparr>n_calls := n_calls w + Suc d,
             trace := trace w @ map (\<lambda>j. Requested (page_request rep s e ((int m + int j) * REPORT_LIMIT)))
                                   [0..<Suc d]\<rparr>)"
proof (induction d arbitrary: m acc w r)
  case 0
  from 0(1) have call: "run_report ev (n_calls w) (page_request rep s e (int m * REPORT_LIMIT)) = Inr (r 0)"
    by simp
  show ?case
    apply (subst get_report_from.simps)
    using 0(3) apply (simp add: make_request_success [OF call] collect_def requested_def)
    done
next
  case (Suc d)
  from Suc.prems(1) have call: "run_report ev (n_calls w) (page_request rep s e (int m * REPORT_LIMIT)) = Inr (r 0)"
    by (metis add.right_neutral add_0 int_ops(1) le0)
  from Suc.prems(2) have more: "REPORT_LIMIT + int m * REPORT_LIMIT < row_count (r 0)"
    by (metis add.right_neutral int_ops(1) zero_less_Suc)
  let ?w1 = "requested rep s e (int m * REPORT_LIMIT) w"
  have ih: "get_report_from ev rep s e collect (int (Suc m) * REPORT_LIMIT) (acc @ [r 0]) ?w1 =
     Some (Inr ((acc @ [r 0]) @ map (\<lambda>j. r (Suc j)) [0..<Suc d]),
           ?w1\<lparr>n_calls := n_calls ?w1 + Suc d,
             trace := trace ?w1 @ map (\<lambda>j. Requested (page_request rep s e ((int (Suc m) + int j) * REPORT_LIMIT)))
                                   [0..<Suc d]\<rparr>)"
  proof (rule Suc.IH)
    show "\<forall>j\<le>d. run_report ev (n_calls ?w1 + j)
              (page_request rep s e ((int (Suc m) + int j) * REPORT_LIMIT)) = Inr (r (Suc j))"
    proof (intro allI impI)
      fix j assume "j \<le> d"
      then have "Suc j \<le> Suc d" by simp
      from Suc.prems(1) [rule_format, OF this]
      show "run_report ev (n_calls ?w1 + j)
              (page_request rep s e ((int (Suc m) + int j) * REPORT_LIMIT)) = Inr (r (Suc j))"
        by (simp add: requested_fields algebra_simps)
    qed
    show "\<forall>j<d. REPORT_LIMIT + (int (Suc m) + int j) * REPORT_LIMIT < row_count (r (Suc j))"
    proof (intro allI impI)
      fix j assume "j < d"
      then have "Suc j < Suc d" by simp
      from Suc.prems(2) [rule_format, OF this]
      show "REPORT_LIMIT + (int (Suc m) + int j) * REPORT_LIMIT < row_count (r (Suc j))"
        by (simp add: algebra_simps)
    qed
    show "row_count (r (Suc d)) \<le> REPORT_LIMIT + (int (Suc m) + int d) * REPORT_LIMIT"
      using Suc.prems(3) by (simp add: algebra_simps)
  qed
  have maps: "map r [0..<Suc (Suc d)] = r 0 # map (\<lambda>j. r (Suc j)) [0..<Suc d]"
    by (simp only: map_upt_Suc)
  have mapt: "map (\<lambda>j. Requested (page_request rep s e ((int m + int j) * REPORT_LIMIT))) [0..<Suc (Suc d)]
     = Requested (page_request rep s e (int m * REPORT_LIMIT))
       # map (\<lambda>j. Requested (page_request rep s e ((int (Suc m) + int j) * REPORT_LIMIT))) [0..<Suc d]"
    by (simp only: map_upt_Suc) (simp add: algebra_simps)
  have offs: "int m * REPORT_LIMIT + REPORT_LIMIT = int (Suc m) * REPORT_LIMIT"
    by (simp add: algebra_simps)
  show ?case
    apply (subst get_report_from.simps)
    apply (simp only: make_request_success [OF call] collect_def prod.case sum.case more if_True offs ih)
    apply (simp only: maps mapt)
    apply (simp add: requested_def)
    done
qed


text \<open>
  C6: \<open>get_report\<close> requests the pages at the offsets 0, 100000, 200000, ... and goes
  on to a further page exactly while the \<open>row_count\<close> of the response just received
  exceeds its offset plus 100000. With \<open>r j\<close> the response to the request at offset
  \<open>j * 100000\<close> and \<open>k\<close> the first index whose \<open>row_count\<close> does not exceed
  \<open>(k + 1) * 100000\<close>, the pages yielded are \<open>r 0, ..., r k\<close> and the requests made are
  those at the offsets \<open>0, ..., k * 100000\<close>. In particular a \<open>row_count\<close> of 250000
  gives exactly three pages, at the offsets 0, 100000 and 200000, and a \<open>row_count\<close> of
  at most 100000 gives exactly one.
\<close>

theorem get_report_pagination:
  "((\<forall>j\<le>k. run_report ev (n_calls w + j) (page_request rep s e (int j * REPORT_LIMIT)) = Inr (r j))
      \<and> (\<forall>j<k. REPORT_LIMIT + int j * REPORT_LIMIT < row_count (r j))
      \<and> row_count (r k) \<le> REPORT_LIMIT + int k * REPORT_LIMIT \<longrightarrow>
    get_report ev rep s e collect [] w =
      Some (Inr (map r [0..<Suc k]),
            w\<lparr>n_calls := n_calls w + Suc k,
              trace := trace w @ map (\<lambda>j. Requested (page_request rep s e (int j * REPORT_LIMIT)))
                                    [0..<Suc k]\<rparr>))
   \<and> ((\<forall>j<3. run_report ev (n_calls w + j) (page_request rep s e (int j * 100000)) = Inr (r j)
               \<and> row_count (r j) = 250000) \<longrightarrow>
      get_report ev rep s e collect [] w =
        Some (Inr [r 0, r 1, r 2],
              w\<lparr>n_calls := n_calls w + 3,
                trace := trace w @ [Requested (page_request rep s e 0),
                                    Requested (page_request rep s e 100000),
                                    Requested (page_request rep s e 200000)]\<rparr>))
   \<and> (run_report ev (n_calls w) (page_request rep s e 0) = Inr r0 \<and> row_count r0 \<le> 100000 \<longrightarrow>
      get_report ev rep s e collect [] w =
        Some (Inr [r0],
              w\<lparr>n_calls := Suc (n_calls w),
                trace := trace w @ [Requested (page_request rep s e 0)]\<rparr>))"
proof (intro conjI impI)
  assume h: "(\<forall>j\<le>k. run_report ev (n_calls w + j) (page_request rep s e (int j * REPORT_LIMIT)) = Inr (r j))
      \<and> (\<forall>j<k. REPORT_LIMIT + int j * REPORT_LIMIT < row_count (r j))
      \<and> row_count (r k) \<le> REPORT_LIMIT + int k * REPORT_LIMIT"
  then show "get_report ev rep s e collect [] w =
      Some (Inr (map r [0..<Suc k]),
            w\<lparr>n_calls := n_calls w + Suc k,
              trace := trace w @ map (\<lambda>j. Requested (page_request rep s e (int j * REPORT_LIMIT)))
                                    [0..<Suc k]\<rparr>)"
    using get_report_from_pages [of k ev w rep s e 0 r "[]"]
    by (simp add: get_report_def)
next
  assume h: "\<forall>j<3. run_report ev (n_calls w + j) (page_request rep s e (int j * 100000)) = Inr (r j)
               \<and> row_count (r j) = 250000"
  have three: "[0..<3] = [0, 1, 2::nat]" by (simp add: upt_rec)
  have "get_report_from ev rep s e collect (int 0 * REPORT_LIMIT) [] w =
     Some (Inr ([] @ map r [0..<Suc 2]),
           w\<lparr>n_calls := n_calls w + Suc 2,
             trace := trace w @ map (\<lambda>j. Requested (page_request rep s e ((int 0 + int j) * REPORT_LIMIT)))
                                   [0..<Suc 2]\<rparr>)"
  proof (rule get_report_from_pages)
    show "\<forall>j\<le>2. run_report ev (n_calls w + j)
              (page_request rep s e ((int 0 + int j) * REPORT_LIMIT)) = Inr (r j)"
      using h by (simp add: REPORT_LIMIT_def)
    show "\<forall>j<2. REPORT_LIMIT + (int 0 + int j) * REPORT_LIMIT < row_count (r j)"
    proof (intro allI impI)
      fix j :: nat assume "j < 2"
      then have "j < 3" "int j \<le> 1" by simp_all
      with h show "REPORT_LIMIT + (int 0 + int j) * REPORT_LIMIT < row_count (r j)"
        by (simp add: REPORT_LIMIT_def)
    qed
    show "row_count (r 2) \<le> REPORT_LIMIT + (int 0 + int 2) * REPORT_LIMIT"
      using h by (simp add: REPORT_LIMIT_def)
  qed
  then show "get_report ev rep s e collect [] w =
        Some (Inr [r 0, r 1, r 2],
              w\<lparr>n_calls := n_calls w + 3,
                trace := trace w @ [Requested (page_request rep s e 0),
                                    Requested (page_request rep s e 100000),
                                    Requested (page_request rep s e 200000)]\<rparr>)"
    by (simp add: get_report_def three REPORT_LIMIT_def)
next
  assume h: "run_report ev (n_calls w) (page_request rep s e 0) = Inr r0 \<and> row_count r0 \<le> 100000"
  then show "get_report ev rep s e collect [] w =
        Some (Inr [r0],
              w\<lparr>n_calls := Suc (n_calls w),
                trace := trace w @ [Requested (page_request rep s e 0)]\<rparr>)"
    using get_report_from_pages [of 0 ev w rep s e 0 "\<lambda>j. r0" "[]"]
    by (simp add: get_report_def REPORT_LIMIT_def)
qed

theorem get_report_pagination_witness:
  "get_report (constant_env (Inr (example_response 0 250000))) example_report 738000 738006
      collect [] example_world =
     Some (Inr [example_response 0 250000, example_response 0 250000, example_response 0 250000],
           example_world\<lparr>n_calls := 3,
             trace := [Requested (page_request example_report 738000 738006 0),
                       Requested (page_request example_report 738000 738006 100000),
                       Requested (page_request example_report 738000 738006 200000)]\<rparr>)
   \<and> get_report (constant_env (Inr (example_response 1 1))) example_report 738000 738006
      collect [] example_world =
     Some (Inr [example_response 1 1],
           example_world\<lparr>n_calls := 1,
             trace := [Requested (page_request example_report 738000 738006 0)]\<rparr>)"
  using
    get_report_pagination [where ev = "constant_env (Inr (example_response 0 250000))"
      and w = example_world and rep = example_report and s = 738000 and e = 738006
      and r = "\<lambda>j. example_response 0 250000" and k = 0
      and ?r0.0 = "example_response 0 250000"]
    get_report_pagination [where ev = "constant_env (Inr (example_response 1 1))"
      and w = example_world and rep = example_report and s = 738000 and e = 738006
      and r = "\<lambda>j. example_response 1 1" and k = 0
      and ?r0.0 = "example_response 1 1"]
  by (simp add: constant_env_def example_response_def example_world_def)

subsection \<open>Quota exhaustion and the retry cap\<close>

lemma next_hour_diff:
  "next_hour_plus_10 now - now = HOUR - now mod HOUR + 10 * SECOND"
proof -
  have "now = now div HOUR * HOUR + now mod HOUR" by simp
  then show ?thesis by (simp add: next_hour_plus_10_def algebra_simps)
qed

lemma next_hour_bounds:
  "10 * SECOND < next_hour_plus_10 now - now"
  "next_hour_plus_10 now - now \<le> HOUR + 10 * SECOND"
proof -
  have "0 \<le> now mod HOUR" "now mod HOUR < HOUR" by (simp_all add: HOUR_def)
  then show "10 * SECOND < next_hour_plus_10 now - now"
    "next_hour_plus_10 now - now \<le> HOUR + 10 * SECOND"
    by (simp_all add: next_hour_diff)
qed

lemma seconds_to_next_hour_value:
  assumes "0 \<le> now" "now + HOUR \<le> MAX_DATETIME"
  shows "seconds_to_next_hour now = Inr ((next_hour_plus_10 now - now) div SECOND)"
proof -
  have add: "datetime_add now HOUR = Inr (now + HOUR)"
    using assms by (simp add: datetime_add_def HOUR_def)
  have "(now + HOUR) - (now + HOUR) mod HOUR = (now div HOUR + 1) * HOUR"
  proof -
    have "(now + HOUR) mod HOUR = now mod HOUR" by simp
    moreover have "now = now div HOUR * HOUR + now mod HOUR" by simp
    ultimately show ?thesis by (simp add: algebra_simps)
  qed
  then have nh: "(now + HOUR) - (now + HOUR) mod HOUR + 10 * SECOND = next_hour_plus_10 now"
    by (simp add: next_hour_plus_10_def)
  have "0 \<le> next_hour_plus_10 now - now" "next_hour_plus_10 now - now < DAY"
    using next_hour_bounds [of now] by (simp_all add: HOUR_def SECOND_def DAY_def)
  then have "(next_hour_plus_10 now - now) mod DAY = next_hour_plus_10 now - now"
    by simp
  then show ?thesis
    by (simp only: seconds_to_next_hour_def add sum.case Let_def timedelta_seconds_def nh)
qed

lemma seconds_bounds:
  fixes d :: int
  assumes "10 * SECOND < d" "d \<le> HOUR + 10 * SECOND"
  shows "10 \<le> d div SECOND" "d div SECOND \<le> 3610"
    "(d div SECOND) * SECOND \<le> d" "d < (d div SECOND + 1) * SECOND"
proof -
  have pos: "0 < SECOND" by (simp add: SECOND_def)
  show "10 \<le> d div SECOND" using assms(1) by (simp add: SECOND_def)
  show "d div SECOND \<le> 3610" using assms(2) by (simp add: SECOND_def HOUR_def)
  have eq: "d div SECOND * SECOND + d mod SECOND = d" by (rule div_mult_mod_eq)
  have m: "0 \<le> d mod SECOND" "d mod SECOND < SECOND" using pos by simp_all
  from eq m show "(d div SECOND) * SECOND \<le> d" by linarith
  have "(d div SECOND + 1) * SECOND = d div SECOND * SECOND + SECOND"
    by (simp add: algebra_simps)
  with eq m show "d < (d div SECOND + 1) * SECOND" by linarith
qed

lemma sleep_if_quota_reached_exhausted:
  assumes "0 \<le> utc_now ev (n_reads w)" "utc_now ev (n_reads w) + HOUR \<le> MAX_DATETIME"
  shows "sleep_if_quota_reached ev ResourceExhausted w =
     (Inr False,
      slept ((next_hour_plus_10 (utc_now ev (n_reads w)) - utc_now ev (n_reads w)) div SECOND) w)"
  using seconds_to_next_hour_value [OF assms]
  by (simp add: sleep_if_quota_reached_def utils_now_def time_sleep_def slept_def)

lemma sleep_if_quota_reached_other:
  "ex \<noteq> ResourceExhausted \<Longrightarrow> sleep_if_quota_reached ev ex w = (Inr False, w)"
  by (simp add: sleep_if_quota_reached_def)

lemma sleep_if_quota_reached_handled:
  assumes "\<forall>n. 0 \<le> utc_now ev n \<and> utc_now ev n + HOUR \<le> MAX_DATETIME"
  shows "sleep_if_quota_reached ev ex w = (Inr False, handled ev ex w)"
proof (cases "ex = ResourceExhausted")
  case True
  then show ?thesis
    using sleep_if_quota_reached_exhausted [of ev w] assms
    by (simp add: handled_def quota_seconds_def)
next
  case False
  then show ?thesis by (simp add: sleep_if_quota_reached_other handled_def)
qed

lemma handled_calls: "n_calls (handled ev ex w) = n_calls w"
  by (simp add: handled_def slept_def)

lemma time_sleep_calls: "n_calls (time_sleep x w) = n_calls w"
  by (simp add: time_sleep_def)

lemma after_failures_calls:
  "n_calls (after_failures ev rep s e offs ex tries k w) = n_calls w + k"
  by (induction k arbitrary: ex tries w)
     (simp_all add: handled_calls time_sleep_calls requested_fields)

lemma retry_fails:
  assumes clock: "\<forall>n. 0 \<le> utc_now ev n \<and> utc_now ev n + HOUR \<le> MAX_DATETIME"
  shows "(\<forall>j\<le>left. run_report ev (n_calls w + j) (page_request rep s e offs) = Inl (ex j)
            \<and> retryable (ex j)) \<Longrightarrow>
         retry_make_request ev rep s e offs tries left w =
           (Inl (ApiError (ex left)),
            handled ev (ex left)
              (requested rep s e offs (after_failures ev rep s e offs ex tries left w)))"
proof (induction left arbitrary: w tries ex)
  case 0
  then have call: "run_report ev (n_calls w) (page_request rep s e offs) = Inl (ex 0)"
    and r: "retryable (ex 0)" by simp_all
  show ?case
    by (simp add: make_request_body_eq call r sleep_if_quota_reached_handled [OF clock])
next
  case (Suc left)
  from Suc.prems have call: "run_report ev (n_calls w) (page_request rep s e offs) = Inl (ex 0)"
    and r: "retryable (ex 0)"
    by (metis add.right_neutral le0)+
  let ?w2 = "time_sleep (2 ^ (tries - 1)) (handled ev (ex 0) (requested rep s e offs w))"
  have calls2: "n_calls ?w2 = Suc (n_calls w)"
    by (simp add: time_sleep_calls handled_calls requested_fields)
  have "\<forall>j\<le>left. run_report ev (n_calls ?w2 + j) (page_request rep s e offs) = Inl (ex (Suc j))
            \<and> retryable (ex (Suc j))"
  proof (intro allI impI)
    fix j assume "j \<le> left"
    then have "Suc j \<le> Suc left" by simp
    from Suc.prems [rule_format, OF this]
    show "run_report ev (n_calls ?w2 + j) (page_request rep s e offs) = Inl (ex (Suc j))
            \<and> retryable (ex (Suc j))"
      by (simp only: calls2) simp
  qed
  from Suc.IH [of ?w2 "\<lambda>j. ex (Suc j)" "Suc tries", OF this]
  have ih: "retry_make_request ev rep s e offs (Suc tries) left ?w2 =
      (Inl (ApiError (ex (Suc left))),
       handled ev (ex (Suc left))
         (requested rep s e offs
           (after_failures ev rep s e offs (\<lambda>j. ex (Suc j)) (Suc tries) left ?w2)))" .
  show ?case
    apply (subst retry_make_request.simps)
    apply (simp only: make_request_body_eq call sum.case prod.case r if_True
        sleep_if_quota_reached_handled [OF clock] nat.case if_False ih after_failures.simps)
    done
qed

lemma retry_succeeds:
  assumes clock: "\<forall>n. 0 \<le> utc_now ev n \<and> utc_now ev n + HOUR \<le> MAX_DATETIME"
  shows "(\<forall>j<k. run_report ev (n_calls w + j) (page_request rep s e offs) = Inl (ex j)
            \<and> retryable (ex j)) \<Longrightarrow>
         run_report ev (n_calls w + k) (page_request rep s e offs) = Inr resp \<Longrightarrow>
         k \<le> left \<Longrightarrow>
         retry_make_request ev rep s e offs tries left w =
           (Inr (resp, REPORT_LIMIT + offs < row_count resp, offs + REPORT_LIMIT),
            requested rep s e offs (after_failures ev rep s e offs ex tries k w))"
proof (induction k arbitrary: w tries ex left)
  case 0
  then show ?case by (simp add: make_request_body_eq)
next
  case (Suc k)
  from Suc.prems(1) have call: "run_report ev (n_calls w) (page_request rep s e offs) = Inl (ex 0)"
    and r: "retryable (ex 0)"
    by (metis add.right_neutral zero_less_Suc)+
  obtain left' where left: "left = Suc left'" "k \<le> left'"
    using Suc.prems(3) by (cases left) simp_all
  let ?w2 = "time_sleep (2 ^ (tries - 1)) (handled ev (ex 0) (requested rep s e offs w))"
  have calls2: "n_calls ?w2 = Suc (n_calls w)"
    by (simp add: time_sleep_calls handled_calls requested_fields)
  have fails: "\<forall>j<k. run_report ev (n_calls ?w2 + j) (page_request rep s e offs) = Inl (ex (Suc j))
            \<and> retryable (ex (Suc j))"
  proof (intro allI impI)
    fix j assume "j < k"
    then have "Suc j < Suc k" by simp
    from Suc.prems(1) [rule_format, OF this]
    show "run_report ev (n_calls ?w2 + j) (page_request rep s e offs) = Inl (ex (Suc j))
            \<and> retryable (ex (Suc j))"
      by (simp only: calls2) simp
  qed
  have ok: "run_report ev (n_calls ?w2 + k) (page_request rep s e offs) = Inr resp"
    using Suc.prems(2) by (simp only: calls2) simp
  from Suc.IH [of ?w2 "\<lambda>j. ex (Suc j)" left' "Suc tries", OF fails ok left(2)]
  have ih: "retry_make_request ev rep s e offs (Suc tries) left' ?w2 =
      (Inr (resp, REPORT_LIMIT + offs < row_count resp, offs + REPORT_LIMIT),
       requested rep s e offs
         (after_failures ev rep s e offs (\<lambda>j. ex (Suc j)) (Suc tries) k ?w2))" .
  show ?case
    apply (subst retry_make_request.simps)
    apply (simp only: make_request_body_eq call sum.case prod.case r if_True left(1)
        sleep_if_quota_reached_handled [OF clock] nat.case if_False ih after_failures.simps)
    done
qed

lemma after_quota_failures:
  "after_failures ev rep s e offs (\<lambda>j. ResourceExhausted) (Suc t) k w =
     w\<lparr>n_calls := n_calls w + k, n_reads := n_reads w + k,
       trace := trace w @ concat (map (\<lambda>i. [Requested (page_request rep s e offs),
                                            Slept (quota_seconds ev (n_reads w + i)),
                                            Slept (2 ^ (t + i))]) [0..<k])\<rparr>"
proof (induction k arbitrary: w t)
  case 0
  then show ?case by simp
next
  case (Suc k)
  have shift: "map f [0..<Suc k] = f 0 # map (\<lambda>i. f (Suc i)) [0..<k]" for f :: "nat \<Rightarrow> event list"
    by (simp only: map_upt_Suc)
  show ?case
    apply (simp only: after_failures.simps Suc.IH shift)
    apply (simp add: handled_def slept_def time_sleep_def requested_def)
    done
qed


text \<open>
  C3, as the specification states it: a quota-exhaustion error is never counted toward
  the cap of five attempts, so quota-exhaustion errors alone never reach the caller.
  They do: when the API answers five calls in a row with ResourceExhausted,
  \<open>make_request\<close> sleeps after each of them and raises the fifth.
\<close>

theorem make_request_quota_counterexample:
  "make_request (constant_env (Inl ResourceExhausted)) example_report 738000 738006 0 example_world
     = (Inl (ApiError ResourceExhausted),
        example_world\<lparr>n_calls := 5, n_reads := 5,
          trace := [Requested (page_request example_report 738000 738006 0), Slept 3605, Slept 1,
                    Requested (page_request example_report 738000 738006 0), Slept 3605, Slept 2,
                    Requested (page_request example_report 738000 738006 0), Slept 3605, Slept 4,
                    Requested (page_request example_report 738000 738006 0), Slept 3605, Slept 8,
                    Requested (page_request example_report 738000 738006 0), Slept 3605]\<rparr>)"
  by (simp add: make_request_def max_tries_def make_request_body_eq constant_env_def
      example_world_def retryable_def sleep_if_quota_reached_def utils_now_def
      seconds_to_next_hour_def datetime_add_def timedelta_seconds_def time_sleep_def
      requested_def MAX_DATETIME_def DAY_def HOUR_def SECOND_def Let_def)

text \<open>
  C3, amended (for clock readings at least an hour before the last datetime): on a
  quota-exhaustion error \<open>make_request\<close> runs the give-up handler, which reads the
  clock, sleeps for the whole seconds from now to ten seconds past the top of the next
  hour (between 10 and 3610) and answers that the loop shall not give up; the loop then
  sleeps for the backoff wait (1, 2, 4, 8 seconds) and calls again. The attempt is
  counted like any other: when five calls in a row fail with quota-exhaustion, the
  requests and sleeps are as listed and the fifth error is raised to the caller, after
  the handler's sleep and without a further backoff wait; the same holds for any five
  retryable errors in a row, the handler sleeping for those that are quota-exhaustions.
  When a call succeeds after fewer than five failures its response is returned.
  \<open>after_failures\<close> is the world after the failed attempts that were retried.
\<close>

theorem make_request_quota_exhaustion:
  assumes clock: "\<forall>n. 0 \<le> utc_now ev n \<and> utc_now ev n + HOUR \<le> MAX_DATETIME"
  shows
    "sleep_if_quota_reached ev ResourceExhausted w
       = (Inr False, slept (quota_seconds ev (n_reads w)) w)
     \<and> 10 \<le> quota_seconds ev n \<and> quota_seconds ev n \<le> 3610
     \<and> utc_now ev n + quota_seconds ev n * SECOND \<le> next_hour_plus_10 (utc_now ev n)
     \<and> next_hour_plus_10 (utc_now ev n) < utc_now ev n + (quota_seconds ev n + 1) * SECOND
     \<and> ((\<forall>j<5. run_report ev (n_calls w + j) (page_request rep s e offs) = Inl ResourceExhausted) \<longrightarrow>
          make_request ev rep s e offs w =
            (Inl (ApiError ResourceExhausted),
             w\<lparr>n_calls := n_calls w + 5, n_reads := n_reads w + 5,
               trace := trace w @
                 [Requested (page_request rep s e offs), Slept (quota_seconds ev (n_reads w)), Slept 1,
                  Requested (page_request rep s e offs), Slept (quota_seconds ev (n_reads w + 1)), Slept 2,
                  Requested (page_request rep s e offs), Slept (quota_seconds ev (n_reads w + 2)), Slept 4,
                  Requested (page_request rep s e offs), Slept (quota_seconds ev (n_reads w + 3)), Slept 8,
                  Requested (page_request rep s e offs), Slept (quota_seconds ev (n_reads w + 4))]\<rparr>))
     \<and> ((\<forall>j<5. run_report ev (n_calls w + j) (page_request rep s e offs) = Inl (ex j)
                 \<and> retryable (ex j)) \<longrightarrow>
          make_request ev rep s e offs w =
            (Inl (ApiError (ex 4)),
             handled ev (ex 4)
               (requested rep s e offs (after_failures ev rep s e offs ex 1 4 w))))
     \<and> (k < 5 \<and> (\<forall>j<k. run_report ev (n_calls w + j) (page_request rep s e offs) = Inl ResourceExhausted)
          \<and> run_report ev (n_calls w + k) (page_request rep s e offs) = Inr resp \<longrightarrow>
          make_request ev rep s e offs w =
            (Inr (resp, REPORT_LIMIT + offs < row_count resp, offs + REPORT_LIMIT),
             w\<lparr>n_calls := n_calls w + Suc k, n_reads := n_reads w + k,
               trace := trace w @
                 concat (map (\<lambda>i. [Requested (page_request rep s e offs),
                                     Slept (quota_seconds ev (n_reads w + i)), Slept (2 ^ i)])
                             [0..<k])
                 @ [Requested (page_request rep s e offs)]\<rparr>))
     \<and> (k < 5 \<and> (\<forall>j<k. run_report ev (n_calls w + j) (page_request rep s e offs) = Inl (ex j)
                           \<and> retryable (ex j))
          \<and> run_report ev (n_calls w + k) (page_request rep s e offs) = Inr resp \<longrightarrow>
          make_request ev rep s e offs w =
            (Inr (resp, REPORT_LIMIT + offs < row_count resp, offs + REPORT_LIMIT),
             requested rep s e offs (after_failures ev rep s e offs ex 1 k w)))"
proof -
  have sleep: "sleep_if_quota_reached ev ResourceExhausted w
       = (Inr False, slept (quota_seconds ev (n_reads w)) w)"
    using sleep_if_quota_reached_handled [OF clock, of ResourceExhausted w]
    by (simp add: handled_def)
  have b1: "10 \<le> quota_seconds ev n" and b2: "quota_seconds ev n \<le> 3610"
    and b3: "utc_now ev n + quota_seconds ev n * SECOND \<le> next_hour_plus_10 (utc_now ev n)"
    and b4: "next_hour_plus_10 (utc_now ev n) < utc_now ev n + (quota_seconds ev n + 1) * SECOND"
    using seconds_bounds [OF next_hour_bounds, of "utc_now ev n"]
    by (simp_all add: quota_seconds_def)
  have cap: "make_request ev rep s e offs w =
            (Inl (ApiError (ex' 4)),
             handled ev (ex' 4)
               (requested rep s e offs (after_failures ev rep s e offs ex' 1 4 w)))"
    if "\<forall>j<5. run_report ev (n_calls w + j) (page_request rep s e offs) = Inl (ex' j)
                 \<and> retryable (ex' j)" for ex'
  proof -
    from that have "\<forall>j\<le>4. run_report ev (n_calls w + j) (page_request rep s e offs) = Inl (ex' j)
                 \<and> retryable (ex' j)" by simp
    from retry_fails [OF clock this, of 1]
    show ?thesis by (simp add: make_request_def max_tries_def)
  qed
  have four: "[0..<4] = [0, 1, 2, 3::nat]" by (simp add: upt_rec)
  have quota: "make_request ev rep s e offs w =
            (Inl (ApiError ResourceExhausted),
             w\<lparr>n_calls := n_calls w + 5, n_reads := n_reads w + 5,
               trace := trace w @
                 [Requested (page_request rep s e offs), Slept (quota_seconds ev (n_reads w)), Slept 1,
                  Requested (page_request rep s e offs), Slept (quota_seconds ev (n_reads w + 1)), Slept 2,
                  Requested (page_request rep s e offs), Slept (quota_seconds ev (n_reads w + 2)), Slept 4,
                  Requested (page_request rep s e offs), Slept (quota_seconds ev (n_reads w + 3)), Slept 8,
                  Requested (page_request rep s e offs), Slept (quota_seconds ev (n_reads w + 4))]\<rparr>)"
    if "\<forall>j<5. run_report ev (n_calls w + j) (page_request rep s e offs) = Inl ResourceExhausted"
  proof -
    have "make_request ev rep s e offs w =
            (Inl (ApiError ResourceExhausted),
             handled ev ResourceExhausted
               (requested rep s e offs
                  (after_failures ev rep s e offs (\<lambda>j. ResourceExhausted) (Suc 0) 4 w)))"
      using cap [of "\<lambda>j. ResourceExhausted"] that by (simp add: retryable_def)
    then show ?thesis
      by (simp only: after_quota_failures)
         (simp add: four handled_def slept_def requested_def)
  qed
  have ok: "make_request ev rep s e offs w =
            (Inr (resp, REPORT_LIMIT + offs < row_count resp, offs + REPORT_LIMIT),
             requested rep s e offs (after_failures ev rep s e offs ex' 1 k w))"
    if "k < 5" "\<forall>j<k. run_report ev (n_calls w + j) (page_request rep s e offs) = Inl (ex' j)
                           \<and> retryable (ex' j)"
       "run_report ev (n_calls w + k) (page_request rep s e offs) = Inr resp" for ex'
  proof -
    from that(1) have "k \<le> 4" by simp
    from retry_succeeds [OF clock that(2,3) this, of 1]
    show ?thesis by (simp add: make_request_def max_tries_def)
  qed
  have okq: "make_request ev rep s e offs w =
            (Inr (resp, REPORT_LIMIT + offs < row_count resp, offs + REPORT_LIMIT),
             w\<lparr>n_calls := n_calls w + Suc k, n_reads := n_reads w + k,
               trace := trace w @
                 concat (map (\<lambda>i. [Requested (page_request rep s e offs),
                                     Slept (quota_seconds ev (n_reads w + i)), Slept (2 ^ i)])
                             [0..<k])
                 @ [Requested (page_request rep s e offs)]\<rparr>)"
    if "k < 5" "\<forall>j<k. run_report ev (n_calls w + j) (page_request rep s e offs) = Inl ResourceExhausted"
       "run_report ev (n_calls w + k) (page_request rep s e offs) = Inr resp"
  proof -
    have "make_request ev rep s e offs w =
            (Inr (resp, REPORT_LIMIT + offs < row_count resp, offs + REPORT_LIMIT),
             requested rep s e offs
               (after_failures ev rep s e offs (\<lambda>j. ResourceExhausted) (Suc 0) k w))"
      using ok [of "\<lambda>j. ResourceExhausted"] that by (simp add: retryable_def)
    then show ?thesis
      by (simp only: after_quota_failures) (simp add: requested_def)
  qed
  from sleep b1 b2 b3 b4 cap [of ex] quota ok [of ex] okq show ?thesis by blast
qed

theorem make_request_quota_exhaustion_witness:
  "sleep_if_quota_reached (flaky_env 2 (example_response 2 70000)) ResourceExhausted example_world
     = (Inr False, example_world\<lparr>n_reads := 1, trace := [Slept 3605]\<rparr>)
   \<and> make_request (flaky_env 5 (example_response 2 70000)) example_report 738000 738006 0 example_world
     = (Inl (ApiError ResourceExhausted),
        example_world\<lparr>n_calls := 5, n_reads := 5,
          trace := [Requested (page_request example_report 738000 738006 0), Slept 3605, Slept 1,
                    Requested (page_request example_report 738000 738006 0), Slept 3605, Slept 2,
                    Requested (page_request example_report 738000 738006 0), Slept 3605, Slept 4,
                    Requested (page_request example_report 738000 738006 0), Slept 3605, Slept 8,
                    Requested (page_request example_report 738000 738006 0), Slept 3605]\<rparr>)
   \<and> make_request (flaky_env 2 (example_response 2 70000)) example_report 738000 738006 0 example_world
     = (Inr (example_response 2 70000, False, 100000),
        example_world\<lparr>n_calls := 3, n_reads := 2,
          trace := [Requested (page_request example_report 738000 738006 0), Slept 3605, Slept 1,
                    Requested (page_request example_report 738000 738006 0), Slept 3605, Slept 2,
                    Requested (page_request example_report 738000 738006 0)]\<rparr>)"
proof -
  have c5: "\<forall>n. 0 \<le> utc_now (flaky_env 5 (example_response 2 70000)) n
         \<and> utc_now (flaky_env 5 (example_response 2 70000)) n + HOUR \<le> MAX_DATETIME"
    by (simp add: flaky_env_def MAX_DATETIME_def DAY_def HOUR_def SECOND_def)
  have c2: "\<forall>n. 0 \<le> utc_now (flaky_env 2 (example_response 2 70000)) n
         \<and> utc_now (flaky_env 2 (example_response 2 70000)) n + HOUR \<le> MAX_DATETIME"
    by (simp add: flaky_env_def MAX_DATETIME_def DAY_def HOUR_def SECOND_def)
  have two: "[0..<2] = [0, 1::nat]" by (simp add: upt_rec)
  have rr: "run_report (flaky_env m (example_response 2 70000)) n req
      = (if n < m then Inl ResourceExhausted else Inr (example_response 2 70000))" for m n req
    by (simp add: flaky_env_def)
  have rc: "row_count (example_response 2 70000) = 70000" by (simp add: example_response_def)
  have q: "quota_seconds (flaky_env m (example_response 2 70000)) n = 3605" for m n
    by (simp add: quota_seconds_def flaky_env_def next_hour_plus_10_def DAY_def HOUR_def SECOND_def)
  from
    make_request_quota_exhaustion [OF c5, where w = example_world and rep = example_report
      and s = 738000 and e = 738006 and offs = 0]
    make_request_quota_exhaustion [OF c2, where w = example_world and rep = example_report
      and s = 738000 and e = 738006 and offs = 0 and k = 2 and resp = "example_response 2 70000"]
  show ?thesis
    by (simp add: q two rr rc example_world_def slept_def REPORT_LIMIT_def)
qed

subsection \<open>\<open>transform_datetimes\<close>\<close>

lemma strptime_error: "strptime value fmt = Inl e \<Longrightarrow> e = ValueError"
  by (auto simp add: strptime_def Let_def split: list.splits prod.splits if_splits)

lemma parse_datetime_eq:
  "DATETIME_FORMATS k = Some fmt \<Longrightarrow> v \<noteq> [] \<Longrightarrow>
   parse_datetime k v = Inr (transform_value k v, \<not> isl (strptime v fmt))"
  by (cases "strptime v fmt")
     (auto simp add: parse_datetime_def transform_value_def dest: strptime_error)

lemma update_in_place:
  "k \<notin> fst ` set pre \<Longrightarrow> AList.update k x (pre @ (k, v) # rest) = pre @ (k, x) # rest"
  by (induction pre) auto

lemma transform_items_eq:
  "distinct (map fst (pre @ items)) \<Longrightarrow>
   transform_items items (pre @ items) flag =
     Inr (pre @ map (\<lambda>(k, v). (k, transform_value k v)) items,
          flag \<or> (\<exists>(k, v) \<in> set items. row_limit_value k v))"
proof (induction items arbitrary: pre flag)
  case Nil
  then show ?case by simp
next
  case (Cons item items)
  obtain k v where item: "item = (k, v)" by (cases item)
  from Cons.prems item have notin: "k \<notin> fst ` set pre" by auto
  from Cons.prems item have d: "distinct (map fst ((pre @ [(k, x)]) @ items))" for x by auto
  show ?case
  proof (cases "v \<noteq> [] \<and> DATETIME_FORMATS k \<noteq> None")
    case True
    then obtain fmt where fmt: "DATETIME_FORMATS k = Some fmt" and v: "v \<noteq> []" by auto
    have upd: "AList.update k (transform_value k v) (pre @ (k, v) # items)
        = (pre @ [(k, transform_value k v)]) @ items"
      using update_in_place [OF notin] by simp
    have rl: "row_limit_value k v \<longleftrightarrow> isl (strptime v fmt) \<and> v = ''(other)''"
      using fmt v by (simp add: row_limit_value_def)
    show ?thesis
      using Cons.IH [OF d, of "transform_value k v"] True
      by (simp add: item parse_datetime_eq [OF fmt v] upd rl del: append_assoc) 
  next
    case False
    then have tv: "transform_value k v = v"
      by (auto simp add: transform_value_def split: option.splits)
    from False have rl: "\<not> row_limit_value k v"
      by (auto simp add: row_limit_value_def split: option.splits)
    show ?thesis
      using Cons.IH [OF d, of v] False
      by (auto simp add: item tv rl)
  qed
qed

lemma transform_datetimes_eq:
  "distinct (map fst rec) \<Longrightarrow>
   transform_datetimes report_name rec =
     Inr (map (\<lambda>(k, v). (k, transform_value k v)) rec,
          if \<exists>(k, v) \<in> set rec. row_limit_value k v then [report_name] else [])"
  using transform_items_eq [of "[]" rec False]
  by (simp add: transform_datetimes_def)


lemma dict_get_map_values:
  "dict_get (map (\<lambda>(k, v). (k, g k v)) rec) key = map_sum id (g key) (dict_get rec key)"
  by (induction rec) (auto simp add: dict_get_def)

lemma datetime_fields:
  "DATETIME_FORMATS k \<noteq> None \<longleftrightarrow>
     k = ''date'' \<or> k = ''dateHour'' \<or> k = ''dateHourMinute'' \<or> k = ''firstSessionDate''"
  by (simp add: DATETIME_FORMATS_def)






subsection \<open>Evaluating the datetime functions\<close>

lemma pad_2: "pad 2 n = [''0123456789'' ! (n div 10 mod 10), ''0123456789'' ! (n mod 10)]"
proof -
  have "(2::nat) = Suc (Suc 0)" by simp
  then show ?thesis by (simp only: pad.simps append_Nil append_Cons)
qed
lemma pad_4:
  "pad 4 n = [''0123456789'' ! (n div 10 div 10 div 10 mod 10),
              ''0123456789'' ! (n div 10 div 10 mod 10),
              ''0123456789'' ! (n div 10 mod 10), ''0123456789'' ! (n mod 10)]"
proof -
  have "(4::nat) = Suc (Suc (Suc (Suc 0)))" by simp
  then show ?thesis by (simp only: pad.simps append_Nil append_Cons)
qed
lemmas evaluate_datetime = strptime_def four_digits_def two_digits_def one_digit_def
  space_digit_def is_digit_def digit_val_def days_in_month_def is_leap_def less_eq_char_def
  strftime_def pad_2 pad_4 DATETIME_FORMATS_def parse_datetime_def


subsection \<open>The hash and \<open>transform_datetimes\<close>\<close>

lemma distinct_dict_update: "distinct (map fst d) \<Longrightarrow> distinct (map fst (dict_update d pairs))"
proof (induction pairs arbitrary: d)
  case Nil
  then show ?case by (simp add: dict_update_def)
next
  case (Cons p pairs)
  from Cons.IH [of "AList.update (fst p) (snd p) d"] Cons.prems
  show ?case by (simp add: dict_update_def distinct_update case_prod_unfold)
qed

lemma distinct_base_record: "distinct (map fst (base_record rep r dh mh d))"
  by (simp add: base_record_def distinct_update distinct_dict_update)

lemma transform_keeps_hash:
  assumes "distinct (map fst rec)"
  shows "\<exists>rec' warnings. transform_datetimes report_name rec = Inr (rec', warnings)
            \<and> dict_get rec' ''_sdc_record_hash'' = dict_get rec ''_sdc_record_hash''"
proof -
  have "dict_get (map (\<lambda>(k, v). (k, transform_value k v)) rec) ''_sdc_record_hash''
      = dict_get rec ''_sdc_record_hash''"
    by (cases "dict_get rec ''_sdc_record_hash''")
       (simp_all add: dict_get_map_values transform_value_def DATETIME_FORMATS_def)
  with transform_datetimes_eq [OF assms, of report_name] show ?thesis by simp
qed

lemma sync_rows_single:
  "row_to_record rep r dh mh = Inr rec \<Longrightarrow>
   transform_datetimes (name rep) rec = Inr (rec', warnings) \<Longrightarrow>
   transformer ev rec' = Inr rec'' \<Longrightarrow>
   sync_rows ev rep dh mh [r] w =
     (Inr (), w\<lparr>n_reads := Suc (n_reads w),
               trace := trace w @ map Warned warnings
                        @ [RecordWritten (name rep) rec'' (utc_now ev (n_reads w))]\<rparr>)"
  by (simp add: utils_now_def write_record_def log_warnings_def)

text \<open>
  C10: the record that \<open>row_to_record\<close> returns holds the SHA-256 of the values as the
  API sent them: the dimension pairs and, as start and end date, the raw value of the
  \<open>date\<close> dimension. \<open>transform_datetimes\<close>, which runs on that record afterwards,
  succeeds and leaves the field \<open>_sdc_record_hash\<close> as it is, and the record written
  for the row is the transformer's image of its result. For any dictionary,
  \<open>transform_datetimes\<close> does not change \<open>_sdc_record_hash\<close>.
\<close>

theorem hash_before_transform:
  "(\<forall>rec. row_to_record rep r dh mh = Inr rec \<longrightarrow>
      dict_get rec ''_sdc_record_hash''
        = Inr (hexdigest (sha256 (hash_source_bytes (property_id rep)
                 (zip dh (dimension_values r))
                 (dimension_values r ! date_pos dh) (dimension_values r ! date_pos dh))))
      \<and> (\<exists>rec' warnings. transform_datetimes (name rep) rec = Inr (rec', warnings)
            \<and> dict_get rec' ''_sdc_record_hash'' = dict_get rec ''_sdc_record_hash''
            \<and> (\<forall>rec''. transformer ev rec' = Inr rec'' \<longrightarrow>
                  sync_rows ev rep dh mh [r] w =
                    (Inr (), w\<lparr>n_reads := Suc (n_reads w),
                              trace := trace w @ map Warned warnings
                                @ [RecordWritten (name rep) rec'' (utc_now ev (n_reads w))]\<rparr>))))
   \<and> (\<forall>rec rec' warnings. distinct (map fst rec)
         \<and> transform_datetimes report_name rec = Inr (rec', warnings) \<longrightarrow>
         dict_get rec' ''_sdc_record_hash'' = dict_get rec ''_sdc_record_hash'')"
proof (intro conjI allI impI)
  fix rec rec' warnings
  assume h: "distinct (map fst rec) \<and> transform_datetimes report_name rec = Inr (rec', warnings)"
  with transform_keeps_hash [of rec report_name]
  show "dict_get rec' ''_sdc_record_hash'' = dict_get rec ''_sdc_record_hash''"
    by auto
next
  fix rec
  assume ok: "row_to_record rep r dh mh = Inr rec"
  then have present: "''date'' \<in> set dh" and pos: "date_pos dh < length (dimension_values r)"
    using row_to_record_Inr_iff [of rep r dh mh] by auto
  let ?h = "hexdigest (sha256 (hash_source_bytes (property_id rep)
               (zip dh (dimension_values r))
               (dimension_values r ! date_pos dh) (dimension_values r ! date_pos dh)))"
  from ok row_to_record_present [OF present pos, of rep mh]
  have rec: "rec = AList.update ''_sdc_record_hash'' ?h
            (base_record rep r dh mh (dimension_values r ! date_pos dh))"
    by simp
  show "dict_get rec ''_sdc_record_hash'' = Inr ?h"
    by (simp add: rec dict_get_update_same)
  have d: "distinct (map fst rec)"
    by (simp add: rec distinct_update distinct_base_record)
  from transform_keeps_hash [OF d, of "name rep"]
  obtain rec' warnings where t: "transform_datetimes (name rep) rec = Inr (rec', warnings)"
    and k: "dict_get rec' ''_sdc_record_hash'' = dict_get rec ''_sdc_record_hash''"
    by blast
  from sync_rows_single [OF ok t] t k
  show "\<exists>rec' warnings. transform_datetimes (name rep) rec = Inr (rec', warnings)
            \<and> dict_get rec' ''_sdc_record_hash'' = dict_get rec ''_sdc_record_hash''
            \<and> (\<forall>rec''. transformer ev rec' = Inr rec'' \<longrightarrow>
                  sync_rows ev rep dh mh [r] w =
                    (Inr (), w\<lparr>n_reads := Suc (n_reads w),
                              trace := trace w @ map Warned warnings
                                @ [RecordWritten (name rep) rec'' (utc_now ev (n_reads w))]\<rparr>))"
    by blast
qed


subsection \<open>\<open>sync_report\<close>: when the bookmark is written\<close>

lemma example_row_to_record:
  "row_to_record example_report example_row [''date'', ''country''] [''sessions'']
     = Inr example_raw_record"
  by (simp add: row_to_record_def generate_sdc_record_hash_def dict_get_def dict_update_def
      list_get_def example_report_def example_row_def example_raw_record_def)

lemma example_transform:
  "transform_datetimes ''traffic'' example_raw_record = Inr (example_output_record, [])"
  by (simp add: transform_datetimes_def example_raw_record_def example_output_record_def
      evaluate_datetime)

lemma sync_rows_replicate:
  assumes "row_to_record rep r dh mh = Inr rec"
    and "transform_datetimes (name rep) rec = Inr (rec', [])"
    and "transformer ev rec' = Inr rec''"
    and "\<forall>i. utc_now ev i = t"
  shows "sync_rows ev rep dh mh (replicate n r) w =
     (Inr (), w\<lparr>n_reads := n_reads w + n,
               trace := trace w @ replicate n (RecordWritten (name rep) rec'' t)\<rparr>)"
proof (induction n arbitrary: w)
  case 0
  then show ?case by simp
next
  case (Suc n)
  show ?case
    by (simp add: assms utils_now_def write_record_def log_warnings_def Suc.IH
        replicate_app_Cons_same)
qed


lemma two_page_rows:
  "sync_rows two_page_env example_report [''date'', ''country''] [''sessions'']
      (replicate k example_row) w =
     (Inr (), w\<lparr>n_reads := n_reads w + k,
               trace := trace w @ replicate k
                 (RecordWritten ''traffic'' example_output_record (738009 * DAY + 5 * SECOND))\<rparr>)"
proof -
  have nm: "name example_report = ''traffic''" by (simp add: example_report_def)
  from sync_rows_replicate [of example_report example_row "[''date'', ''country'']"
      "[''sessions'']" example_raw_record example_output_record two_page_env
      example_output_record "738009 * DAY + 5 * SECOND" k w]
  show ?thesis
    by (simp add: nm example_row_to_record example_transform two_page_env_def)
qed

lemma two_page_response:
  "sync_response two_page_env example_report 738008 (example_response k 150000) () w =
     (Inr (),
      w\<lparr>n_reads := n_reads w + k,
        state := write_bookmark (state w) ''traffic_id'' ''123'' 738008,
        trace := trace w @ replicate k
                   (RecordWritten ''traffic'' example_output_record (738009 * DAY + 5 * SECOND))
                 @ [StateWritten (write_bookmark (state w) ''traffic_id'' ''123'' 738008)]\<rparr>)"
proof -
  have f: "report_id example_report = ''traffic_id''" "property_id example_report = ''123''"
    by (simp_all add: example_report_def)
  show ?thesis
    by (simp add: sync_response_def example_response_def two_page_rows write_state_def f)
qed

lemma two_page_first:
  "n_calls w = 0 \<Longrightarrow>
   make_request two_page_env example_report 738002 738008 0 w =
     (Inr (example_response 100000 150000, True, 100000),
      requested example_report 738002 738008 0 w)"
proof -
  have "run_report two_page_env (n_calls w) (page_request example_report 738002 738008 0)
      = Inr (example_response 100000 150000)"
    by (simp add: two_page_env_def page_request_def)
  from make_request_success [OF this] show ?thesis
    by (simp add: example_response_def REPORT_LIMIT_def)
qed

lemma two_page_second:
  "make_request two_page_env example_report 738002 738008 100000 w =
     (Inr (example_response 50000 150000, False, 200000),
      requested example_report 738002 738008 100000 w)"
proof -
  have "run_report two_page_env (n_calls w) (page_request example_report 738002 738008 100000)
      = Inr (example_response 50000 150000)"
    by (simp add: two_page_env_def page_request_def)
  from make_request_success [OF this] show ?thesis
    by (simp add: example_response_def REPORT_LIMIT_def)
qed

text \<open>
  C4: the bookmark of a chunk shall be written, and the state persisted, only after
  every record of every page of the chunk was emitted. In the code \<open>write_bookmark\<close> and
  \<open>write_state\<close> stand inside the loop over the pages. For the chunk 2021-08-01 to
  2021-08-07 (days 738002 to 738008), whose responses report 150000 rows, the state
  with the bookmark 2021-08-07 is written after the 100000 records of the first page,
  before the second page is requested and its 50000 records are written.
\<close>

theorem sync_report_bookmark_mid_chunk:
  "sync_report two_page_env example_report (738002 * DAY) (738008 * DAY) 7 example_world =
     Some (Inr (),
       \<lparr>n_calls = 2, n_reads = 150000, state = example_state 738008,
        trace =
          Requested (page_request example_report 738002 738008 0)
          # replicate 100000
              (RecordWritten ''traffic'' example_output_record (738009 * DAY + 5 * SECOND))
          @ [StateWritten (example_state 738008),
             Requested (page_request example_report 738002 738008 100000)]
          @ replicate 50000
              (RecordWritten ''traffic'' example_output_record (738009 * DAY + 5 * SECOND))
          @ [StateWritten (example_state 738008)]\<rparr>)"
proof -
  have chunks: "generate_report_dates (738002 * DAY) (738008 * DAY) 7
      = Some ([(738002, 738008)], None)"
    unfolding generate_report_dates_def
    by (simp add: report_dates_loop.simps timedelta_days_def datetime_add_def MAX_DATETIME_def
        DAY_def date_of_def)
  have pages: "get_report two_page_env example_report 738002 738008
      (sync_response two_page_env example_report 738008) () example_world =
     Some (Inr (),
       \<lparr>n_calls = 2, n_reads = 150000, state = example_state 738008,
        trace =
          Requested (page_request example_report 738002 738008 0)
          # replicate 100000
              (RecordWritten ''traffic'' example_output_record (738009 * DAY + 5 * SECOND))
          @ [StateWritten (example_state 738008),
             Requested (page_request example_report 738002 738008 100000)]
          @ replicate 50000
              (RecordWritten ''traffic'' example_output_record (738009 * DAY + 5 * SECOND))
          @ [StateWritten (example_state 738008)]\<rparr>)"
    unfolding get_report_def
    apply (subst get_report_from.simps)
    apply (simp add: two_page_first example_world_def two_page_response)
    apply (subst get_report_from.simps)
    apply (simp add: two_page_second two_page_response requested_def write_bookmark_def
        example_state_def)
    done
  show ?thesis
    by (simp add: sync_report_def chunks pages)
qed

end
